theory Spec2Isabelle
  imports Complex_Main "HOL-Library.Char_ord" "HOL-Library.List_Lexorder"
begin

section \<open>Python values shared by the modules\<close>

text \<open>
  A Python \<open>dict\<close> keeps its keys in insertion order, and the protocols iterate over
  their dictionaries, so a dictionary is an association list with distinct keys.
  Assigning to a key that is present replaces the value in place; assigning to a new key
  appends the entry; \<open>del\<close> removes it.
\<close>

type_synonym ('k, 'v) dict = "('k \<times> 'v) list"

fun dict_set :: "('k, 'v) dict \<Rightarrow> 'k \<Rightarrow> 'v \<Rightarrow> ('k, 'v) dict" where
  "dict_set [] k v = [(k, v)]"
| "dict_set ((k', v') # d) k v =
     (if k' = k then (k', v) # d else (k', v') # dict_set d k v)"

definition dict_get :: "('k, 'v) dict \<Rightarrow> 'k \<Rightarrow> 'v option" where
  "dict_get d k = map_of d k"

definition dict_del :: "('k, 'v) dict \<Rightarrow> 'k \<Rightarrow> ('k, 'v) dict" where
  "dict_del d k = filter (\<lambda>kv. fst kv \<noteq> k) d"

definition dict_keys :: "('k, 'v) dict \<Rightarrow> 'k list" where
  "dict_keys d = map fst d"

definition dict_values :: "('k, 'v) dict \<Rightarrow> 'v list" where
  "dict_values d = map snd d"

text \<open>The well-formedness of a dictionary: no key occurs twice.\<close>

definition dict_ok :: "('k, 'v) dict \<Rightarrow> bool" where
  "dict_ok d = distinct (map fst d)"

text \<open>
  \<open>datetime.now()\<close> reads the wall clock. Every function below that calls it takes
  the reading (or the successive readings, in call order) as an argument.
\<close>

record datetime =
  year :: nat
  month :: nat
  day :: nat
  hour :: nat
  minute :: nat
  second :: nat
  microsecond :: nat

definition digit_char :: "nat \<Rightarrow> char" where
  "digit_char n = char_of (48 + n)"

fun str_nat :: "nat \<Rightarrow> string" where
  "str_nat n = (if n < 10 then [digit_char n] else str_nat (n div 10) @ [digit_char (n mod 10)])"

declare str_nat.simps [simp del]

definition zfill :: "nat \<Rightarrow> string \<Rightarrow> string" where
  "zfill w s = replicate (w - length s) (CHR ''0'') @ s"

text \<open>\<open>strftime('%Y%m%d_%H%M%S')\<close>: the reading down to the second, microseconds dropped.\<close>

definition strftime_Ymd_HMS :: "datetime \<Rightarrow> string" where
  "strftime_Ymd_HMS t =
     zfill 4 (str_nat (year t)) @ zfill 2 (str_nat (month t)) @ zfill 2 (str_nat (day t))
     @ ''_'' @ zfill 2 (str_nat (hour t)) @ zfill 2 (str_nat (minute t))
     @ zfill 2 (str_nat (second t))"

text \<open>\<open>sep.join(parts)\<close>.\<close>

fun py_join :: "string \<Rightarrow> string list \<Rightarrow> string" where
  "py_join sep [] = []"
| "py_join sep [x] = x"
| "py_join sep (x # y # ys) = x @ sep @ py_join sep (y # ys)"

text \<open>\<open>a or b\<close> on strings: the empty string is falsy.\<close>

definition str_or :: "string \<Rightarrow> string \<Rightarrow> string" where
  "str_or a b = (if a = [] then b else a)"

text \<open>
  A payload is a \<open>Dict[str, Any]\<close>. Where the kind of the values matters they are
  \<open>pyval\<close>: \<open>None\<close>, booleans, integers, strings, lists, and dictionaries with
  string keys, a dictionary with its items in insertion order. Two notions of sameness
  live on them. \<open>py_eq\<close> is Python's \<open>==\<close>: \<open>True == 1\<close>, lists are compared
  element by element, and two dictionaries are equal when they have the same number of
  items and every key of the first is in the second with an equal value, whatever the
  order of insertion. \<open>py_repr\<close> is Python's \<open>repr\<close>, which \<open>str\<close> of a list
  applies to the elements: it writes a dictionary in insertion order. Its argument is
  \<open>repr\<close> on strings.
\<close>

datatype pyval =
  PyNone | PyBool bool | PyInt int | PyStr string | PyList "pyval list"
  | PyDict "(string \<times> pyval) list"

fun py_eq :: "pyval \<Rightarrow> pyval \<Rightarrow> bool"
  and py_eq_list :: "pyval list \<Rightarrow> pyval list \<Rightarrow> bool"
  and py_eq_items :: "(string \<times> pyval) list \<Rightarrow> (string \<times> pyval) list \<Rightarrow> bool" where
  "py_eq PyNone PyNone = True"
| "py_eq (PyBool a) (PyBool b) = (a = b)"
| "py_eq (PyBool a) (PyInt j) = ((if a then 1 else 0) = j)"
| "py_eq (PyInt i) (PyBool b) = (i = (if b then 1 else 0))"
| "py_eq (PyInt i) (PyInt j) = (i = j)"
| "py_eq (PyStr s) (PyStr t) = (s = t)"
| "py_eq (PyList xs) (PyList ys) = py_eq_list xs ys"
| "py_eq (PyDict d) (PyDict e) = (length d = length e \<and> py_eq_items d e)"
| "py_eq v w = False"
| "py_eq_list [] [] = True"
| "py_eq_list (x # xs) (y # ys) = (py_eq x y \<and> py_eq_list xs ys)"
| "py_eq_list xs ys = False"
| "py_eq_items [] e = True"
| "py_eq_items ((k, v) # d) e =
     (case map_of e k of None \<Rightarrow> False | Some w \<Rightarrow> py_eq v w \<and> py_eq_items d e)"

definition str_int :: "int \<Rightarrow> string" where
  "str_int i = (if i < 0 then ''-'' @ str_nat (nat (- i)) else str_nat (nat i))"

fun py_repr :: "(string \<Rightarrow> string) \<Rightarrow> pyval \<Rightarrow> string" where
  "py_repr rs PyNone = ''None''"
| "py_repr rs (PyBool b) = (if b then ''True'' else ''False'')"
| "py_repr rs (PyInt i) = str_int i"
| "py_repr rs (PyStr s) = rs s"
| "py_repr rs (PyList xs) = ''['' @ py_join '', '' (map (py_repr rs) xs) @ '']''"
| "py_repr rs (PyDict d) =
     ''{'' @ py_join '', '' (map (\<lambda>kv. rs (fst kv) @ '': '' @ py_repr rs (snd kv)) d) @ ''}''"

text \<open>
  The functions of the Python runtime and standard library that the code calls and whose
  text is not part of the repository are parameters of the model: \<open>repr\<close> of a payload
  key and of a payload value, \<open>hashlib.sha256(..).hexdigest()\<close>, \<open>str.encode\<close>,
  \<open>datetime.isoformat\<close>, the rendering of \<open>datetime.timestamp()\<close> in an f-string,
  and \<open>str(hash(str(data)))\<close>.
\<close>

record 'v runtime =
  repr_key :: "string \<Rightarrow> string"
  repr_val :: "'v \<Rightarrow> string"
  encode :: "string \<Rightarrow> string"
  sha256_hexdigest :: "string \<Rightarrow> string"
  isoformat :: "datetime \<Rightarrow> string"
  timestamp_str :: "datetime \<Rightarrow> string"
  str_hash_str :: "(string, 'v) dict \<Rightarrow> string"

section \<open>protocols/triple\_check.py\<close>

text \<open>
  Confidences and reliability scores are Python floats. They are modelled as real
  numbers: the comparisons of the code (\<open>< 0.5\<close>, \<open>min(.., 1.0)\<close>) are exact on the
  values they receive, and the sums and quotients are the exact ones.
\<close>

datatype CheckType = PRIMARY | SECONDARY | PATTERN

datatype VerificationStatus = VERIFIED | PARTIAL | FAILED | PENDING | ESCALATED

record SourceReference =
  name :: string
  url :: string
  src_type :: string
  reliability_score :: real
  last_verified :: "datetime option"

record CheckResult =
  check_type :: CheckType
  passed :: bool
  confidence :: real
  sources_used :: "SourceReference list"
  evidence :: string
  cr_timestamp :: datetime
  error :: "string option"

text \<open>\<open>data.get("id", f"auto_{..}")\<close> is the payload's own value or the generated string.\<close>

datatype 'v data_id = Given 'v | Auto string

record 'v TripleCheckResult =
  data_id :: "'v data_id"
  data_hash :: string
  original_data :: "(string, 'v) dict"
  primary_check :: CheckResult
  secondary_check :: CheckResult
  pattern_check :: CheckResult
  overall_status :: VerificationStatus
  overall_confidence :: real
  verification_chain :: "string list"
  tcr_timestamp :: datetime
  human_reviewed :: bool

record TripleCheckProtocol =
  primary_sources :: "(string, SourceReference) dict"
  secondary_sources :: "(string, SourceReference) dict"
  confidence_threshold :: real
  min_sources_required :: nat
  total_verifications :: nat
  successful_verifications :: nat
  escalations :: nat

definition mk_source :: "string \<Rightarrow> string \<Rightarrow> string \<Rightarrow> real \<Rightarrow> SourceReference" where
  "mk_source n u ty r =
     \<lparr>name = n, url = u, src_type = ty, reliability_score = r, last_verified = None\<rparr>"

definition init_default_sources :: "TripleCheckProtocol \<Rightarrow> TripleCheckProtocol" where
  "init_default_sources p = p\<lparr>
     primary_sources :=
       [(''hansard'', mk_source ''UK Hansard'' ''https://hansard.parliament.uk/'' ''official'' (99/100)),
        (''parliament'', mk_source ''UK Parliament'' ''https://www.parliament.uk/'' ''official'' (99/100)),
        (''legislation'', mk_source ''Legislation.gov.uk'' ''https://www.legislation.gov.uk/'' ''official'' (99/100)),
        (''ons'', mk_source ''Office for National Statistics'' ''https://www.ons.gov.uk/'' ''official'' (98/100))],
     secondary_sources :=
       [(''theyworkforyou'', mk_source ''TheyWorkForYou'' ''https://www.theyworkforyou.com/'' ''independent'' (92/100)),
        (''publicwhip'', mk_source ''Public Whip'' ''https://www.publicwhip.org.uk/'' ''independent'' (90/100)),
        (''fullfact'', mk_source ''Full Fact'' ''https://fullfact.org/'' ''independent'' (95/100))]\<rparr>"

definition TripleCheckProtocol_init :: TripleCheckProtocol where
  "TripleCheckProtocol_init = init_default_sources
     \<lparr>primary_sources = [], secondary_sources = [], confidence_threshold = 7/10,
      min_sources_required = 2, total_verifications = 0, successful_verifications = 0,
      escalations = 0\<rparr>"

subsection \<open>Helper methods\<close>

text \<open>
  \<open>str(sorted(data.items()))\<close>: the items are (key, value) tuples; the keys of a
  dictionary are distinct strings, so the tuple comparison is decided by the keys, which
  Python compares lexicographically by code point. The result is rendered as a list of
  tuples, each value by its \<open>repr\<close>. Only the top level is sorted: what a value
  renders to is its own matter, and values that Python's \<open>==\<close> identifies need not
  render alike (see \<open>py_eq\<close> and \<open>py_repr\<close>).
\<close>

definition str_items :: "'v runtime \<Rightarrow> (string \<times> 'v) list \<Rightarrow> string" where
  "str_items rt items =
     ''['' @ py_join '', '' (map (\<lambda>(k, v). ''('' @ repr_key rt k @ '', '' @ repr_val rt v @ '')'') items)
     @ '']''"

definition hash_data :: "'v runtime \<Rightarrow> (string, 'v) dict \<Rightarrow> string" where
  "hash_data rt data =
     (let data_str = str_items rt (sort_key fst data)
      in take 16 (sha256_hexdigest rt (encode rt data_str)))"

definition select_sources ::
  "(string, SourceReference) dict \<Rightarrow> string \<Rightarrow> (string, SourceReference) dict" where
  "select_sources sources data_type = sources"

definition verify_against_source ::
  "(string, 'v) dict \<Rightarrow> SourceReference \<Rightarrow> bool \<times> string" where
  "verify_against_source data source = (True, ''Confirmed by '' @ name source)"

record features =
  f_type :: string
  f_keys :: "string list"

definition extract_features :: "(string, 'v) dict \<Rightarrow> string \<Rightarrow> features" where
  "extract_features data data_type = \<lparr>f_type = data_type, f_keys = dict_keys data\<rparr>"

definition match_historical :: "features \<Rightarrow> string list \<times> string list" where
  "match_historical fs = ([''similar_pattern_001''], [])"

subsection \<open>Individual checks\<close>

text \<open>The loop over the relevant sources, shared in shape by the first two checks.\<close>

fun consult ::
  "(string, 'v) dict \<Rightarrow> (string \<times> SourceReference) list \<Rightarrow>
   SourceReference list \<Rightarrow> string list \<Rightarrow> SourceReference list \<times> string list" where
  "consult data [] used parts = (used, parts)"
| "consult data ((source_id, source) # rest) used parts =
     (let (verified, ev) = verify_against_source data source
      in consult data rest (used @ [source]) (if ev \<noteq> [] then parts @ [ev] else parts))"

definition mean_reliability :: "SourceReference list \<Rightarrow> real" where
  "mean_reliability used =
     (if used \<noteq> [] then sum_list (map reliability_score used) / real (length used) else 0)"

definition check_primary ::
  "TripleCheckProtocol \<Rightarrow> datetime \<Rightarrow> (string, 'v) dict \<Rightarrow> string \<Rightarrow> CheckResult" where
  "check_primary p now data data_type =
     (let relevant_sources = select_sources (primary_sources p) data_type;
          (used, parts) = consult data relevant_sources [] [];
          pass = (length used \<ge> min_sources_required p);
          conf = min (mean_reliability used) 1
      in \<lparr>check_type = PRIMARY, passed = pass, confidence = conf, sources_used = used,
          evidence = str_or (py_join ''; '' parts) ''Primary sources confirmed'',
          cr_timestamp = now, error = None\<rparr>)"

definition check_secondary ::
  "TripleCheckProtocol \<Rightarrow> datetime \<Rightarrow> (string, 'v) dict \<Rightarrow> string \<Rightarrow> CheckResult" where
  "check_secondary p now data data_type =
     (let relevant_sources = select_sources (secondary_sources p) data_type;
          (used, parts) = consult data relevant_sources [] [];
          pass = (length used \<ge> 1);
          conf = mean_reliability used
      in \<lparr>check_type = SECONDARY, passed = pass, confidence = conf, sources_used = used,
          evidence = str_or (py_join ''; '' parts) ''Secondary sources confirmed'',
          cr_timestamp = now, error = None\<rparr>)"

definition check_pattern ::
  "TripleCheckProtocol \<Rightarrow> datetime \<Rightarrow> (string, 'v) dict \<Rightarrow> string \<Rightarrow> CheckResult" where
  "check_pattern p now data data_type =
     (let fs = extract_features data data_type;
          (matches, anomalies) = match_historical fs;
          pass = (length anomalies = 0 \<and> length matches > 0);
          conf = (if pass then 8/10 else 4/10)
      in \<lparr>check_type = PATTERN, passed = pass, confidence = conf, sources_used = [],
          evidence = ''Pattern matches: '' @ str_nat (length matches) @ '', Anomalies: ''
                     @ str_nat (length anomalies),
          cr_timestamp = now, error = None\<rparr>)"

subsection \<open>Main verification flow\<close>

definition pass_fail :: "bool \<Rightarrow> string" where
  "pass_fail b = (if b then ''PASS'' else ''FAIL'')"

definition status_value :: "VerificationStatus \<Rightarrow> string" where
  "status_value st = (case st of VERIFIED \<Rightarrow> ''VERIFIED'' | PARTIAL \<Rightarrow> ''PARTIAL''
     | FAILED \<Rightarrow> ''FAILED'' | PENDING \<Rightarrow> ''PENDING'' | ESCALATED \<Rightarrow> ''ESCALATED'')"

text \<open>\<open>sum(checks)\<close> over booleans counts the true ones.\<close>

definition passed_count :: "bool list \<Rightarrow> nat" where
  "passed_count checks = length (filter id checks)"

text \<open>
  The second half of \<open>verify\<close>, from "Calculate overall status" to the return: what the
  method does with the three check results once they are there. \<open>chain\<close> is the audit
  trail so far and \<open>now\<close> the reading that stamps the result.
\<close>

definition verify_aggregate ::
  "TripleCheckProtocol \<Rightarrow> datetime \<Rightarrow> 'v data_id \<Rightarrow> string \<Rightarrow> (string, 'v) dict \<Rightarrow>
   string list \<Rightarrow> CheckResult \<Rightarrow> CheckResult \<Rightarrow> CheckResult \<Rightarrow>
   'v TripleCheckResult \<times> TripleCheckProtocol" where
  "verify_aggregate p now did dhash data chain primary_result secondary_result pattern_result =
     (let checks = [passed primary_result, passed secondary_result, passed pattern_result];
          confidences = [confidence primary_result, confidence secondary_result,
                         confidence pattern_result];
          n = passed_count checks;
          conf = sum_list confidences / 3;
          status0 = (if n = 3 then VERIFIED else if n \<ge> 1 then PARTIAL else FAILED);
          escalate = (status0 = PARTIAL \<and> conf < 1/2);
          status = (if escalate then ESCALATED else status0);
          p1 = (if escalate then p\<lparr>escalations := escalations p + 1\<rparr> else p);
          chain1 = (if escalate then chain @ [''ESCALATED: Requires human review''] else chain);
          p2 = p1\<lparr>total_verifications := total_verifications p1 + 1\<rparr>;
          p3 = (if status = VERIFIED
                then p2\<lparr>successful_verifications := successful_verifications p2 + 1\<rparr> else p2);
          chain2 = chain1 @ [''Final status: '' @ status_value status]
      in (\<lparr>data_id = did, data_hash = dhash, original_data = data,
           primary_check = primary_result, secondary_check = secondary_result,
           pattern_check = pattern_result, overall_status = status,
           overall_confidence = conf, verification_chain = chain2,
           tcr_timestamp = now, human_reviewed = False\<rparr>, p3))"

text \<open>
  \<open>verify\<close>. The clock is read six times, in this order: for the default of
  \<open>data.get("id", ..)\<close> (evaluated whether or not the key is present), for the first
  line of the audit trail, for the timestamp of each of the three check results, and for
  the timestamp of the result. \<open>clk i\<close> is the \<open>i\<close>-th reading.
\<close>

definition verify ::
  "'v runtime \<Rightarrow> TripleCheckProtocol \<Rightarrow> (nat \<Rightarrow> datetime) \<Rightarrow> (string, 'v) dict \<Rightarrow> string \<Rightarrow>
   'v TripleCheckResult \<times> TripleCheckProtocol" where
  "verify rt p clk data data_type =
     (let did = (case dict_get data ''id'' of Some v \<Rightarrow> Given v
                 | None \<Rightarrow> Auto (''auto_'' @ timestamp_str rt (clk 0)));
          dhash = hash_data rt data;
          chain0 = [''Verification started: '' @ isoformat rt (clk 1)];
          primary_result = check_primary p (clk 2) data data_type;
          chain1 = chain0 @ [''Primary check: '' @ pass_fail (passed primary_result)];
          secondary_result = check_secondary p (clk 3) data data_type;
          chain2 = chain1 @ [''Secondary check: '' @ pass_fail (passed secondary_result)];
          pattern_result = check_pattern p (clk 4) data data_type;
          chain3 = chain2 @ [''Pattern check: '' @ pass_fail (passed pattern_result)]
      in verify_aggregate p (clk 5) did dhash data chain3
           primary_result secondary_result pattern_result)"

section \<open>protocols/freeze\_protocol.py\<close>

datatype SystemState = ACTIVE | FROZEN | RECOVERING | MAINTENANCE

datatype FreezeReason =
  ARM_FAILURE | VERIFICATION_FAILURE | DATA_INTEGRITY | API_ERROR | ANOMALY_DETECTED
  | HUMAN_TRIGGERED | SECURITY_CONCERN

datatype RecoveryAction =
  RESTART_ARM | CLEAR_CACHE | ROLLBACK_DATA | HUMAN_REVIEW | FULL_DIAGNOSTIC

record FreezeEvent =
  event_id :: string
  fe_timestamp :: datetime
  reason :: FreezeReason
  trigger_source :: string
  details :: string
  affected_components :: "string list"
  resolved :: bool
  resolution_time :: "datetime option"
  resolution_action :: "string option"

text \<open>
  A registered component is an opaque object (\<open>Any\<close>) that the protocol touches only
  through \<open>hasattr\<close> and four coroutine methods. It is modelled by its internal state
  and, for each method, \<open>None\<close> when the object has no such attribute and otherwise the
  method's effect on that state. A call either returns or raises an exception (with its
  message, \<open>str(e)\<close>); in both cases the object may have changed.

  For \<open>health_check\<close> the value is what \<open>health.get('status', ..)\<close> then finds:
  \<open>Some s\<close> for a dictionary with a \<open>status\<close> entry, \<open>None\<close> for one without. A
  result on which \<open>.get\<close> itself raises is a raising call: both sit in the same
  \<open>try\<close>.
\<close>

datatype ('a, 'c) call = Ok 'a 'c | Exc string 'c

record 'c component =
  cstate :: 'c
  pause_m :: "('c \<Rightarrow> (unit, 'c) call) option"
  resume_m :: "('c \<Rightarrow> (unit, 'c) call) option"
  clear_cache_m :: "('c \<Rightarrow> (unit, 'c) call) option"
  health_check_m :: "('c \<Rightarrow> (string option, 'c) call) option"

text \<open>
  FreezeEvent objects are shared: the one in \<open>current_freeze\<close> is also an element of
  \<open>freeze_history\<close>, and \<open>unfreeze\<close> mutates it through the former. The only place
  that creates one is \<open>trigger_freeze\<close>, which appends it to the history at once, and the
  history is never shortened or reordered. A reference to a FreezeEvent is therefore its
  position in \<open>freeze_history\<close>.
\<close>

type_synonym event_ref = nat

text \<open>
  The brain callback is awaited with \<open>("freeze", event)\<close> or \<open>("unfreeze", None)\<close>;
  it returns \<open>Some msg\<close> when it raises.
\<close>

type_synonym callback = "string \<Rightarrow> FreezeEvent option \<Rightarrow> string option"

record 'c FreezeProtocol =
  brain_callback :: "callback option"
  state :: SystemState
  current_freeze :: "event_ref option"
  components :: "(string, 'c component) dict"
  component_status :: "(string, string) dict"
  freeze_history :: "FreezeEvent list"
  auto_recovery_enabled :: bool
  max_auto_recovery_attempts :: int
  recovery_attempts :: int

text \<open>The outcome of a method of the protocol: its return value or the exception that escapes.\<close>

datatype 'r outcome = Return 'r | Raise string

record DiagnosticReport =
  dr_timestamp :: datetime
  system_state :: SystemState
  freeze_event :: "event_ref option"
  dr_component_status :: "(string, string) dict"
  data_integrity_score :: real
  recent_verifications :: nat
  verification_success_rate :: real
  recommended_actions :: "RecoveryAction list"
  estimated_recovery_time :: string
  human_intervention_required :: bool

definition FreezeProtocol_init :: "callback option \<Rightarrow> 'c FreezeProtocol" where
  "FreezeProtocol_init cb =
     \<lparr>brain_callback = cb, state = ACTIVE, current_freeze = None, components = [],
      component_status = [], freeze_history = [], auto_recovery_enabled = True,
      max_auto_recovery_attempts = 3, recovery_attempts = 0\<rparr>"

text \<open>The object \<open>self.current_freeze\<close> refers to, if any.\<close>

definition current_event :: "'c FreezeProtocol \<Rightarrow> FreezeEvent option" where
  "current_event p =
     (case current_freeze p of None \<Rightarrow> None
      | Some r \<Rightarrow> if r < length (freeze_history p) then Some (freeze_history p ! r) else None)"

subsection \<open>Registration\<close>

definition register_component ::
  "'c FreezeProtocol \<Rightarrow> string \<Rightarrow> 'c component \<Rightarrow> 'c FreezeProtocol" where
  "register_component p nm component =
     p\<lparr>components := dict_set (components p) nm component,
       component_status := dict_set (component_status p) nm ''ACTIVE''\<rparr>"

definition unregister_component :: "'c FreezeProtocol \<Rightarrow> string \<Rightarrow> 'c FreezeProtocol" where
  "unregister_component p nm =
     (if nm \<in> set (dict_keys (components p))
      then p\<lparr>components := dict_del (components p) nm,
             component_status := dict_del (component_status p) nm\<rparr>
      else p)"

subsection \<open>Halting\<close>

definition halt_one :: "'c component \<Rightarrow> 'c component \<times> string" where
  "halt_one c =
     (case pause_m c of
        None \<Rightarrow> (c, ''PAUSED'')
      | Some f \<Rightarrow> (case f (cstate c) of
                    Ok u st \<Rightarrow> (c\<lparr>cstate := st\<rparr>, ''PAUSED'')
                  | Exc e st \<Rightarrow> (c\<lparr>cstate := st\<rparr>, ''ERROR'')))"

fun halt_loop ::
  "(string \<times> 'c component) list \<Rightarrow> (string, string) dict \<Rightarrow>
   (string \<times> 'c component) list \<times> (string, string) dict" where
  "halt_loop [] status = ([], status)"
| "halt_loop ((nm, c) # rest) status =
     (let (c', s) = halt_one c;
          (rest', status') = halt_loop rest (dict_set status nm s)
      in ((nm, c') # rest', status'))"

definition halt_components :: "'c FreezeProtocol \<Rightarrow> 'c FreezeProtocol" where
  "halt_components p =
     (let (cs, status) = halt_loop (components p) (component_status p)
      in p\<lparr>components := cs, component_status := status\<rparr>)"

subsection \<open>Diagnostics\<close>

definition probe_one :: "'c component \<Rightarrow> 'c component \<times> string" where
  "probe_one c =
     (case health_check_m c of
        None \<Rightarrow> (c, ''NO_HEALTH_CHECK'')
      | Some f \<Rightarrow> (case f (cstate c) of
                    Ok h st \<Rightarrow> (c\<lparr>cstate := st\<rparr>,
                                 (case h of Some s \<Rightarrow> s | None \<Rightarrow> ''UNKNOWN''))
                  | Exc e st \<Rightarrow> (c\<lparr>cstate := st\<rparr>, ''ERROR: '' @ e)))"

fun probe_loop ::
  "(string \<times> 'c component) list \<Rightarrow> (string, string) dict \<Rightarrow>
   (string \<times> 'c component) list \<times> (string, string) dict" where
  "probe_loop [] status = ([], status)"
| "probe_loop ((nm, c) # rest) status =
     (let (c', s) = probe_one c;
          (rest', status') = probe_loop rest (dict_set status nm s)
      in ((nm, c') # rest', status'))"

definition calculate_integrity_score :: "'c FreezeProtocol \<Rightarrow> real" where
  "calculate_integrity_score p =
     (if component_status p = [] then 0
      else real (length (filter (\<lambda>s. s = ''ACTIVE'') (dict_values (component_status p))))
           / real (length (component_status p)))"

definition determine_recovery_actions :: "'c FreezeProtocol \<Rightarrow> RecoveryAction list" where
  "determine_recovery_actions p =
     (case current_event p of
        None \<Rightarrow> []
      | Some ev \<Rightarrow>
          (if reason ev = ARM_FAILURE then [RESTART_ARM]
           else if reason ev = DATA_INTEGRITY then [ROLLBACK_DATA, HUMAN_REVIEW]
           else if reason ev = API_ERROR then [CLEAR_CACHE, RESTART_ARM]
           else if reason ev = SECURITY_CONCERN then [FULL_DIAGNOSTIC, HUMAN_REVIEW]
           else [FULL_DIAGNOSTIC]))"

text \<open>
  \<open>a or b and c\<close> is \<open>a or (b and c)\<close>; the value is used as a truth value only.
\<close>

definition human_needed :: "'c FreezeProtocol \<Rightarrow> bool" where
  "human_needed p =
     (recovery_attempts p \<ge> max_auto_recovery_attempts p \<or>
      (case current_event p of
         None \<Rightarrow> False
       | Some ev \<Rightarrow> reason ev \<in> set [SECURITY_CONCERN, DATA_INTEGRITY]))"

definition run_diagnostics ::
  "'c FreezeProtocol \<Rightarrow> datetime \<Rightarrow> DiagnosticReport \<times> 'c FreezeProtocol" where
  "run_diagnostics p now =
     (let (cs, status) = probe_loop (components p) (component_status p);
          p1 = p\<lparr>components := cs, component_status := status\<rparr>;
          integrity_score = calculate_integrity_score p1;
          actions = determine_recovery_actions p1;
          human = human_needed p1
      in (\<lparr>dr_timestamp = now, system_state = state p1, freeze_event = current_freeze p1,
           dr_component_status = component_status p1, data_integrity_score = integrity_score,
           recent_verifications = 0, verification_success_rate = 0,
           recommended_actions = actions, estimated_recovery_time = ''5-10 minutes'',
           human_intervention_required = human\<rparr>, p1))"

subsection \<open>Recovery\<close>

text \<open>
  \<open>RESTART_ARM\<close>: resume the components named in the current event's affected list. An
  exception of \<open>resume\<close> ends the loop and the action reports failure.
\<close>

fun restart_loop ::
  "string list \<Rightarrow> (string, 'c component) dict \<Rightarrow> bool \<times> (string, 'c component) dict" where
  "restart_loop [] cs = (True, cs)"
| "restart_loop (comp_name # rest) cs =
     (case dict_get cs comp_name of
        None \<Rightarrow> restart_loop rest cs
      | Some c \<Rightarrow>
          (case resume_m c of
             None \<Rightarrow> restart_loop rest cs
           | Some f \<Rightarrow>
               (case f (cstate c) of
                  Ok u st \<Rightarrow> restart_loop rest (dict_set cs comp_name (c\<lparr>cstate := st\<rparr>))
                | Exc e st \<Rightarrow> (False, dict_set cs comp_name (c\<lparr>cstate := st\<rparr>)))))"

text \<open>\<open>CLEAR_CACHE\<close>: clear the cache of every component that has one.\<close>

fun clear_loop ::
  "(string \<times> 'c component) list \<Rightarrow> bool \<times> (string \<times> 'c component) list" where
  "clear_loop [] = (True, [])"
| "clear_loop ((nm, c) # rest) =
     (case clear_cache_m c of
        None \<Rightarrow> (let (ok, rest') = clear_loop rest in (ok, (nm, c) # rest'))
      | Some f \<Rightarrow>
          (case f (cstate c) of
             Ok u st \<Rightarrow> (let (ok, rest') = clear_loop rest
                          in (ok, (nm, c\<lparr>cstate := st\<rparr>) # rest'))
           | Exc e st \<Rightarrow> (False, (nm, c\<lparr>cstate := st\<rparr>) # rest)))"

definition execute_recovery_action ::
  "'c FreezeProtocol \<Rightarrow> RecoveryAction \<Rightarrow> bool \<times> 'c FreezeProtocol" where
  "execute_recovery_action p action =
     (case action of
        RESTART_ARM \<Rightarrow>
          (case current_event p of
             None \<Rightarrow> (True, p)
           | Some ev \<Rightarrow>
               (let (ok, cs) = restart_loop (affected_components ev) (components p)
                in (ok, p\<lparr>components := cs\<rparr>)))
      | CLEAR_CACHE \<Rightarrow>
          (let (ok, cs) = clear_loop (components p) in (ok, p\<lparr>components := cs\<rparr>))
      | ROLLBACK_DATA \<Rightarrow> (True, p)
      | FULL_DIAGNOSTIC \<Rightarrow> (True, p)
      | HUMAN_REVIEW \<Rightarrow> (False, p))"

text \<open>
  The loop of \<open>_attempt_auto_recovery\<close> over the recommended actions: it runs them in
  order and stops at the first one that does not succeed.
\<close>

fun execute_actions ::
  "'c FreezeProtocol \<Rightarrow> RecoveryAction list \<Rightarrow> bool \<times> 'c FreezeProtocol" where
  "execute_actions p [] = (True, p)"
| "execute_actions p (action # rest) =
     (let (success, p') = execute_recovery_action p action
      in if \<not> success then (False, p') else execute_actions p' rest)"

subsection \<open>Unfreeze\<close>

definition resume_one :: "'c component \<Rightarrow> 'c component \<times> string" where
  "resume_one c =
     (case resume_m c of
        None \<Rightarrow> (c, ''ACTIVE'')
      | Some f \<Rightarrow> (case f (cstate c) of
                    Ok u st \<Rightarrow> (c\<lparr>cstate := st\<rparr>, ''ACTIVE'')
                  | Exc e st \<Rightarrow> (c\<lparr>cstate := st\<rparr>, ''ERROR'')))"

fun resume_loop ::
  "(string \<times> 'c component) list \<Rightarrow> (string, string) dict \<Rightarrow>
   (string \<times> 'c component) list \<times> (string, string) dict" where
  "resume_loop [] status = ([], status)"
| "resume_loop ((nm, c) # rest) status =
     (let (c', s) = resume_one c;
          (rest', status') = resume_loop rest (dict_set status nm s)
      in ((nm, c') # rest', status'))"

text \<open>
  \<open>if self.current_freeze:\<close> marks the shared event object resolved, which is seen
  through the history as well.
\<close>

definition resolve_current ::
  "'c FreezeProtocol \<Rightarrow> datetime \<Rightarrow> string \<Rightarrow> 'c FreezeProtocol" where
  "resolve_current p now auth =
     (case current_freeze p of
        None \<Rightarrow> p
      | Some r \<Rightarrow>
          (if r < length (freeze_history p)
           then p\<lparr>freeze_history := (freeze_history p)
                  [r := (freeze_history p ! r)\<lparr>resolved := True, resolution_time := Some now,
                                               resolution_action := Some auth\<rparr>]\<rparr>
           else p))"

text \<open>
  \<open>not authorization\<close> holds for \<open>None\<close> and for the empty string.
\<close>

definition unfreeze ::
  "'c FreezeProtocol \<Rightarrow> datetime \<Rightarrow> string option \<Rightarrow> bool outcome \<times> 'c FreezeProtocol" where
  "unfreeze p now authorization =
     (if state p \<noteq> FROZEN then (Return True, p)
      else case authorization of
        None \<Rightarrow> (Return False, p)
      | Some auth \<Rightarrow>
          if auth = [] then (Return False, p)
          else
            (let p1 = p\<lparr>state := RECOVERING\<rparr>;
                 (cs, status) = resume_loop (components p1) (component_status p1);
                 p2 = p1\<lparr>components := cs, component_status := status\<rparr>;
                 p3 = resolve_current p2 now auth;
                 p4 = p3\<lparr>state := ACTIVE, current_freeze := None, recovery_attempts := 0\<rparr>
             in case brain_callback p4 of
                  None \<Rightarrow> (Return True, p4)
                | Some cb \<Rightarrow> (case cb ''unfreeze'' None of
                               None \<Rightarrow> (Return True, p4)
                             | Some e \<Rightarrow> (Raise e, p4))))"

text \<open>
  \<open>_attempt_auto_recovery\<close>. \<open>t_diag\<close> is the clock reading of the diagnostics run
  after the actions, \<open>t_res\<close> that of the unfreeze.
\<close>

definition attempt_auto_recovery ::
  "'c FreezeProtocol \<Rightarrow> datetime \<Rightarrow> datetime \<Rightarrow> DiagnosticReport \<Rightarrow>
   bool outcome \<times> 'c FreezeProtocol" where
  "attempt_auto_recovery p t_diag t_res diagnostics =
     (if human_intervention_required diagnostics then (Return False, p)
      else if recovery_attempts p \<ge> max_auto_recovery_attempts p then (Return False, p)
      else
        (let p1 = p\<lparr>recovery_attempts := recovery_attempts p + 1\<rparr>;
             (success, p2) = execute_actions p1 (recommended_actions diagnostics)
         in if \<not> success then (Return False, p2)
            else
              (let (post_diagnostics, p3) = run_diagnostics p2 t_diag
               in if data_integrity_score post_diagnostics \<ge> 8/10
                  then (case unfreeze p3 t_res (Some ''auto_recovery'') of
                          (Return b, p4) \<Rightarrow> (Return True, p4)
                        | (Raise e, p4) \<Rightarrow> (Raise e, p4))
                  else (Return False, p3))))"

subsection \<open>Freeze\<close>

definition reason_value :: "FreezeReason \<Rightarrow> string" where
  "reason_value r = (case r of ARM_FAILURE \<Rightarrow> ''arm_failure''
     | VERIFICATION_FAILURE \<Rightarrow> ''verification_failure'' | DATA_INTEGRITY \<Rightarrow> ''data_integrity''
     | API_ERROR \<Rightarrow> ''api_error'' | ANOMALY_DETECTED \<Rightarrow> ''anomaly_detected''
     | HUMAN_TRIGGERED \<Rightarrow> ''human_triggered'' | SECURITY_CONCERN \<Rightarrow> ''security_concern'')"

text \<open>
  \<open>trigger_freeze\<close> returns a FreezeEvent object, or \<open>None\<close> when it returns a
  \<open>current_freeze\<close> that is \<open>None\<close>. The clock readings, in the order of the calls:
  \<open>clk 0\<close> for the event id, \<open>clk 1\<close> for the event's timestamp, \<open>clk 2\<close> for the
  diagnostics, and inside the auto-recovery \<open>clk 3\<close> for the second diagnostics and
  \<open>clk 4\<close> for the unfreeze. \<open>affected_components or list(..)\<close> takes the registered
  names when the argument is \<open>None\<close> or the empty list.
\<close>

definition trigger_freeze ::
  "'c FreezeProtocol \<Rightarrow> (nat \<Rightarrow> datetime) \<Rightarrow> FreezeReason \<Rightarrow> string \<Rightarrow> string \<Rightarrow>
   string list option \<Rightarrow> event_ref option outcome \<times> 'c FreezeProtocol" where
  "trigger_freeze p clk rsn source dets affected_opt =
     (if state p = FROZEN then (Return (current_freeze p), p)
      else
        (let eid = ''freeze_'' @ strftime_Ymd_HMS (clk 0);
             affected = (case affected_opt of
                           None \<Rightarrow> dict_keys (components p)
                         | Some xs \<Rightarrow> if xs = [] then dict_keys (components p) else xs);
             freeze_ev = \<lparr>event_id = eid, fe_timestamp = clk 1, reason = rsn,
                          trigger_source = source, details = dets,
                          affected_components = affected, resolved = False,
                          resolution_time = None, resolution_action = None\<rparr>;
             ref = length (freeze_history p);
             p1 = p\<lparr>state := FROZEN, current_freeze := Some ref,
                    freeze_history := freeze_history p @ [freeze_ev]\<rparr>;
             p2 = halt_components p1
         in case (case brain_callback p2 of None \<Rightarrow> None
                  | Some cb \<Rightarrow> cb ''freeze'' (Some freeze_ev)) of
              Some e \<Rightarrow> (Raise e, p2)
            | None \<Rightarrow>
                (let (diagnostics, p3) = run_diagnostics p2 (clk 2)
                 in if auto_recovery_enabled p3
                    then (case attempt_auto_recovery p3 (clk 3) (clk 4) diagnostics of
                            (Return b, p4) \<Rightarrow> (Return (Some ref), p4)
                          | (Raise e, p4) \<Rightarrow> (Raise e, p4))
                    else (Return (Some ref), p3))))"

section \<open>agents/brain/westminster\_watch.py\<close>

datatype ArmStatus = Arm_ACTIVE | Arm_PAUSED | Arm_FAILED | Arm_INITIALIZING

datatype WW_VerificationStatus = WW_VERIFIED | WW_PARTIAL | WW_FAILED | WW_PENDING

record ConstitutionalLaw =
  law_name :: string
  application :: string
  active :: bool

record 'v WW_TripleCheckResult =
  ww_data_id :: "'v data_id"
  ww_primary_check :: bool
  ww_secondary_check :: bool
  ww_pattern_check :: bool
  ww_confidence :: real
  sources :: "string list"
  ww_timestamp :: datetime

definition ww_status :: "'v WW_TripleCheckResult \<Rightarrow> WW_VerificationStatus" where
  "ww_status r =
     (let checks = [ww_primary_check r, ww_secondary_check r, ww_pattern_check r]
      in if list_all id checks then WW_VERIFIED
         else if list_ex id checks then WW_PARTIAL
         else WW_FAILED)"

record 'c WestminsterWatch =
  designation :: string
  registry :: string
  laws :: "ConstitutionalLaw list"
  arms :: "(string, 'c component) dict"
  arm_status :: "(string, ArmStatus) dict"
  frozen :: bool
  freeze_reason :: "string option"
  verifications_total :: nat
  verifications_passed :: nat

definition init_constitutional_laws :: "ConstitutionalLaw list" where
  "init_constitutional_laws =
     [\<lparr>law_name = ''Emotional Consent'',
       application = ''No citizen manipulated without awareness'', active = True\<rparr>,
      \<lparr>law_name = ''Honest Reflection'',
       application = ''Facts named truthfully before interpretation'', active = True\<rparr>,
      \<lparr>law_name = ''Distributed Safety'',
       application = ''Truth verification is collective, not centralized'', active = True\<rparr>,
      \<lparr>law_name = ''Empathic Sovereignty'',
       application = ''Report WITH citizens, not FOR them'', active = True\<rparr>,
      \<lparr>law_name = ''Signal Diversity'',
       application = ''Multiple perspectives protected and presented'', active = True\<rparr>]"

definition WestminsterWatch_init :: "'c WestminsterWatch" where
  "WestminsterWatch_init =
     \<lparr>designation = ''SENTINEL_BRAIN_001'', registry = ''OMNIPLEX_HEARTFIELD_SYSTEMS'',
      laws = init_constitutional_laws, arms = [], arm_status = [], frozen = False,
      freeze_reason = None, verifications_total = 0, verifications_passed = 0\<rparr>"

definition register_arm ::
  "'c WestminsterWatch \<Rightarrow> string \<Rightarrow> 'c component \<Rightarrow> 'c WestminsterWatch" where
  "register_arm b arm_name arm_instance =
     b\<lparr>arms := dict_set (arms b) arm_name arm_instance,
       arm_status := dict_set (arm_status b) arm_name Arm_INITIALIZING\<rparr>"

definition verify_primary :: "(string, 'v) dict \<Rightarrow> string list \<Rightarrow> bool" where
  "verify_primary data srcs = True"

definition verify_secondary :: "(string, 'v) dict \<Rightarrow> string list \<Rightarrow> bool" where
  "verify_secondary data srcs = True"

definition verify_pattern :: "(string, 'v) dict \<Rightarrow> bool" where
  "verify_pattern data = True"

text \<open>
  \<open>triple_check\<close> of the orchestrator. \<open>now\<close> is the clock reading that stamps the
  result. The \<open>RuntimeError\<close> of a frozen system is the outcome \<open>Raise\<close> with its
  message.
\<close>

definition triple_check ::
  "'v runtime \<Rightarrow> 'c WestminsterWatch \<Rightarrow> datetime \<Rightarrow> (string, 'v) dict \<Rightarrow> string list \<Rightarrow>
   string list \<Rightarrow> 'v WW_TripleCheckResult outcome \<times> 'c WestminsterWatch" where
  "triple_check rt b now data primary_srcs secondary_srcs =
     (if frozen b then (Raise ''System is frozen - cannot verify'', b)
      else
        (let did = (case dict_get data ''id'' of Some v \<Rightarrow> Given v
                    | None \<Rightarrow> Auto (str_hash_str rt data));
             primary_ck = verify_primary data primary_srcs;
             secondary_ck = verify_secondary data secondary_srcs;
             pattern_ck = verify_pattern data;
             checks = [primary_ck, secondary_ck, pattern_ck];
             conf = real (passed_count checks) / 3;
             result = \<lparr>ww_data_id = did, ww_primary_check = primary_ck,
                       ww_secondary_check = secondary_ck, ww_pattern_check = pattern_ck,
                       ww_confidence = conf, sources = primary_srcs @ secondary_srcs,
                       ww_timestamp = now\<rparr>;
             b1 = b\<lparr>verifications_total := verifications_total b + 1\<rparr>;
             b2 = (if ww_status result = WW_VERIFIED
                   then b1\<lparr>verifications_passed := verifications_passed b1 + 1\<rparr> else b1)
         in (Return result, b2)))"

text \<open>
  \<open>freeze\<close> and \<open>unfreeze\<close> of the orchestrator (prefixed here, the freeze protocol
  has an \<open>unfreeze\<close> of its own). The calls of \<open>pause\<close> and \<open>resume\<close> are not
  guarded: an exception ends the loop and escapes. The diagnostics of \<open>freeze\<close> are
  only logged.
\<close>

fun ww_pause_loop ::
  "(string \<times> 'c component) list \<Rightarrow> (string, ArmStatus) dict \<Rightarrow>
   string option \<times> (string \<times> 'c component) list \<times> (string, ArmStatus) dict" where
  "ww_pause_loop [] status = (None, [], status)"
| "ww_pause_loop ((nm, arm) # rest) status =
     (case pause_m arm of
        None \<Rightarrow>
          (let (e, rest', status') = ww_pause_loop rest (dict_set status nm Arm_PAUSED)
           in (e, (nm, arm) # rest', status'))
      | Some f \<Rightarrow>
          (case f (cstate arm) of
             Ok u st \<Rightarrow>
               (let (e, rest', status') = ww_pause_loop rest (dict_set status nm Arm_PAUSED)
                in (e, (nm, arm\<lparr>cstate := st\<rparr>) # rest', status'))
           | Exc e st \<Rightarrow> (Some e, (nm, arm\<lparr>cstate := st\<rparr>) # rest, status)))"

definition ww_freeze ::
  "'c WestminsterWatch \<Rightarrow> string \<Rightarrow> unit outcome \<times> 'c WestminsterWatch" where
  "ww_freeze b rsn =
     (if frozen b then (Return (), b)
      else
        (let b1 = b\<lparr>frozen := True, freeze_reason := Some rsn\<rparr>;
             (e, as, status) = ww_pause_loop (arms b1) (arm_status b1);
             b2 = b1\<lparr>arms := as, arm_status := status\<rparr>
         in case e of Some msg \<Rightarrow> (Raise msg, b2) | None \<Rightarrow> (Return (), b2)))"

fun ww_resume_loop ::
  "(string \<times> 'c component) list \<Rightarrow> (string, ArmStatus) dict \<Rightarrow>
   string option \<times> (string \<times> 'c component) list \<times> (string, ArmStatus) dict" where
  "ww_resume_loop [] status = (None, [], status)"
| "ww_resume_loop ((nm, arm) # rest) status =
     (case resume_m arm of
        None \<Rightarrow>
          (let (e, rest', status') = ww_resume_loop rest (dict_set status nm Arm_ACTIVE)
           in (e, (nm, arm) # rest', status'))
      | Some f \<Rightarrow>
          (case f (cstate arm) of
             Ok u st \<Rightarrow>
               (let (e, rest', status') = ww_resume_loop rest (dict_set status nm Arm_ACTIVE)
                in (e, (nm, arm\<lparr>cstate := st\<rparr>) # rest', status'))
           | Exc e st \<Rightarrow> (Some e, (nm, arm\<lparr>cstate := st\<rparr>) # rest, status)))"

definition ww_unfreeze ::
  "'c WestminsterWatch \<Rightarrow> string option \<Rightarrow> bool outcome \<times> 'c WestminsterWatch" where
  "ww_unfreeze b authorization =
     (case authorization of
        None \<Rightarrow> (Return False, b)
      | Some auth \<Rightarrow>
          if auth = [] then (Return False, b)
          else
            (let b1 = b\<lparr>frozen := False, freeze_reason := None\<rparr>;
                 (e, as, status) = ww_resume_loop (arms b1) (arm_status b1);
                 b2 = b1\<lparr>arms := as, arm_status := status\<rparr>
             in case e of Some msg \<Rightarrow> (Raise msg, b2) | None \<Rightarrow> (Return True, b2)))"

section \<open>Inputs for the examples\<close>

text \<open>
  Concrete inputs at which the theorems below are instantiated. \<open>demo_clock\<close> gives
  successive readings within one second. \<open>toy_runtime\<close> stands for the Python runtime
  where an example needs one: its digest is the identity, so that the hash of an example
  is the first sixteen characters of the rendering itself. \<open>scenario_A\<close> is the
  protocol with two primary sources of reliability 0.99 and one secondary source of
  reliability 0.92. \<open>MockArm\<close> is the class of that name in the demo of
  \<open>freeze_protocol.py\<close>: its state is the flag \<open>active\<close>.
\<close>

definition demo_time :: datetime where
  "demo_time = \<lparr>year = 2025, month = 11, day = 20, hour = 10, minute = 0, second = 0,
                 microsecond = 0\<rparr>"

definition demo_clock :: "nat \<Rightarrow> datetime" where
  "demo_clock i = demo_time\<lparr>microsecond := i\<rparr>"

definition toy_runtime :: "int runtime" where
  "toy_runtime =
     \<lparr>repr_key = id, repr_val = (\<lambda>i. str_nat (nat i)), encode = id, sha256_hexdigest = id,
      isoformat = strftime_Ymd_HMS, timestamp_str = strftime_Ymd_HMS,
      str_hash_str = (\<lambda>d. ''0'')\<rparr>"

text \<open>
  \<open>py_runtime\<close> is \<open>toy_runtime\<close> for payloads of \<open>pyval\<close>: values are rendered by
  \<open>py_repr\<close> and strings are put between apostrophes, which is their \<open>repr\<close> when
  they hold letters only. \<open>payload_ab\<close> and \<open>payload_ba\<close> are the payloads
  \<open>{"meta": {"a": 1, "b": 2}}\<close> and \<open>{"meta": {"b": 2, "a": 1}}\<close>.
\<close>

definition quote :: "string \<Rightarrow> string" where
  "quote s = CHR 0x27 # s @ [CHR 0x27]"

definition py_runtime :: "pyval runtime" where
  "py_runtime =
     \<lparr>repr_key = quote, repr_val = py_repr quote, encode = id, sha256_hexdigest = id,
      isoformat = strftime_Ymd_HMS, timestamp_str = strftime_Ymd_HMS,
      str_hash_str = (\<lambda>d. ''0'')\<rparr>"

definition payload_ab :: "(string, pyval) dict" where
  "payload_ab = [(''meta'', PyDict [(''a'', PyInt 1), (''b'', PyInt 2)])]"

definition payload_ba :: "(string, pyval) dict" where
  "payload_ba = [(''meta'', PyDict [(''b'', PyInt 2), (''a'', PyInt 1)])]"

definition scenario_A :: TripleCheckProtocol where
  "scenario_A = TripleCheckProtocol_init\<lparr>
     primary_sources :=
       [(''hansard'', mk_source ''UK Hansard'' ''https://hansard.parliament.uk/'' ''official'' (99/100)),
        (''parliament'', mk_source ''UK Parliament'' ''https://www.parliament.uk/'' ''official'' (99/100))],
     secondary_sources :=
       [(''theyworkforyou'', mk_source ''TheyWorkForYou'' ''https://www.theyworkforyou.com/'' ''independent'' (92/100))]\<rparr>"

definition demo_check :: "CheckType \<Rightarrow> bool \<Rightarrow> real \<Rightarrow> CheckResult" where
  "demo_check ct b c =
     \<lparr>check_type = ct, passed = b, confidence = c, sources_used = [], evidence = [],
      cr_timestamp = demo_time, error = None\<rparr>"

definition MockArm :: "bool \<Rightarrow> bool component" where
  "MockArm a =
     \<lparr>cstate = a,
      pause_m = Some (\<lambda>s. Ok () False),
      resume_m = Some (\<lambda>s. Ok () True),
      clear_cache_m = None,
      health_check_m = Some (\<lambda>s. Ok (Some (if s then ''ACTIVE'' else ''PAUSED'')) s)\<rparr>"

text \<open>
  The protocol of the demo, with the arms \<open>hansard\<close> and \<open>veritas\<close> registered, and
  the state it is in after the demo's freeze. \<open>later_clock\<close> reads the same second as
  \<open>demo_clock\<close>, half a second on. \<open>solo_protocol\<close> has the arm \<open>hansard\<close> alone and
  auto-recovery switched off. \<open>frozen_brain\<close> is an orchestrator after a freeze.
\<close>

definition demo_protocol :: "bool FreezeProtocol" where
  "demo_protocol =
     register_component
       (register_component (FreezeProtocol_init None) ''hansard'' (MockArm True))
       ''veritas'' (MockArm True)"

definition frozen_demo :: "bool FreezeProtocol" where
  "frozen_demo =
     snd (trigger_freeze demo_protocol demo_clock ARM_FAILURE ''hansard''
            ''API connection timeout'' (Some [''hansard'']))"

definition later_clock :: "nat \<Rightarrow> datetime" where
  "later_clock i = demo_time\<lparr>microsecond := 500000 + i\<rparr>"

definition solo_protocol :: "bool FreezeProtocol" where
  "solo_protocol =
     (register_component (FreezeProtocol_init None) ''hansard'' (MockArm True))
       \<lparr>auto_recovery_enabled := False\<rparr>"

definition frozen_solo :: "bool FreezeProtocol" where
  "frozen_solo =
     snd (trigger_freeze solo_protocol demo_clock ARM_FAILURE ''hansard''
            ''API connection timeout'' None)"

text \<open>
  \<open>StuckCacheArm\<close> is a \<open>MockArm\<close> with a \<open>clear_cache\<close> that always raises.
  \<open>cache_protocol\<close> has it registered as \<open>hansard\<close>, with auto-recovery switched
  off, and \<open>frozen_cache\<close> is that protocol after a freeze for an API error, for which
  the recommended actions are to clear the caches and then to restart the arm.
\<close>

definition StuckCacheArm :: "bool \<Rightarrow> bool component" where
  "StuckCacheArm a =
     (MockArm a)\<lparr>clear_cache_m := Some (\<lambda>s. Exc ''cache backend unavailable'' s)\<rparr>"

definition cache_protocol :: "bool FreezeProtocol" where
  "cache_protocol =
     (register_component (FreezeProtocol_init None) ''hansard'' (StuckCacheArm True))
       \<lparr>auto_recovery_enabled := False\<rparr>"

definition frozen_cache :: "bool FreezeProtocol" where
  "frozen_cache =
     snd (trigger_freeze cache_protocol demo_clock API_ERROR ''hansard'' ''HTTP 503'' None)"

definition frozen_brain :: "bool WestminsterWatch" where
  "frozen_brain =
     snd (ww_freeze (register_arm WestminsterWatch_init ''hansard'' (MockArm True))
            ''Arm hansard health check failed'')"

section \<open>The triple check: status, confidence and hash\<close>

lemma sort_key_fst_unique:
  assumes "distinct (map fst xs)" "distinct (map fst ys)" "set xs = set ys"
  shows "sort_key fst xs = sort_key fst (ys :: (string \<times> 'v) list)"
proof -
  let ?a = "sort_key fst xs" and ?b = "sort_key fst ys"
  have inj: "inj_on fst (set xs)" using assms(1) by (simp add: distinct_map)
  have da: "distinct (map fst ?a)" using assms(1) by (simp add: distinct_map)
  have db: "distinct (map fst ?b)" using assms(2) by (simp add: distinct_map)
  have "set (map fst ?a) = set (map fst ?b)" using assms(3) by simp
  moreover have "sorted (map fst ?a)" "sorted (map fst ?b)" by (rule sorted_sort_key)+
  ultimately have "map fst ?a = map fst ?b" using da db
    by (intro sorted_distinct_set_unique) auto
  moreover have "inj_on fst (set ?a \<union> set ?b)" using inj assms(3) by simp
  ultimately show ?thesis by (simp add: inj_on_map_eq_map)
qed

lemma aggregate_status:
  "overall_status (fst (verify_aggregate p now did dhash data chain pr sr tr)) =
     (if passed pr \<and> passed sr \<and> passed tr then VERIFIED
      else if \<not> passed pr \<and> \<not> passed sr \<and> \<not> passed tr then FAILED
      else if (confidence pr + confidence sr + confidence tr) / 3 < 1/2 then ESCALATED
      else PARTIAL)"
  by (simp add: verify_aggregate_def passed_count_def Let_def)

lemma aggregate_confidence:
  "overall_confidence (fst (verify_aggregate p now did dhash data chain pr sr tr)) =
     (confidence pr + confidence sr + confidence tr) / 3"
  by (simp add: verify_aggregate_def Let_def)

lemma aggregate_escalations:
  "escalations (snd (verify_aggregate p now did dhash data chain pr sr tr)) =
     escalations p +
       (if overall_status (fst (verify_aggregate p now did dhash data chain pr sr tr)) = ESCALATED
        then 1 else 0)"
  by (simp add: verify_aggregate_def passed_count_def Let_def)

lemma aggregate_checks:
  "primary_check (fst (verify_aggregate p now did dhash data chain pr sr tr)) = pr"
  "secondary_check (fst (verify_aggregate p now did dhash data chain pr sr tr)) = sr"
  "pattern_check (fst (verify_aggregate p now did dhash data chain pr sr tr)) = tr"
  by (simp_all add: verify_aggregate_def Let_def)

lemma verify_unfold:
  "verify rt p clk data ty =
     verify_aggregate p (clk 5)
       (case dict_get data ''id'' of Some v \<Rightarrow> Given v
        | None \<Rightarrow> Auto (''auto_'' @ timestamp_str rt (clk 0)))
       (hash_data rt data) data
       [''Verification started: '' @ isoformat rt (clk 1),
        ''Primary check: '' @ pass_fail (passed (check_primary p (clk 2) data ty)),
        ''Secondary check: '' @ pass_fail (passed (check_secondary p (clk 3) data ty)),
        ''Pattern check: '' @ pass_fail (passed (check_pattern p (clk 4) data ty))]
       (check_primary p (clk 2) data ty) (check_secondary p (clk 3) data ty)
       (check_pattern p (clk 4) data ty)"
  by (simp add: verify_def Let_def)

lemma consult_used: "fst (consult data srcs used parts) = used @ map snd srcs"
  by (induction srcs arbitrary: used parts) (auto simp: verify_against_source_def)

lemma check_primary_fields:
  "passed (check_primary p now data ty) = (min_sources_required p \<le> length (primary_sources p))"
  "confidence (check_primary p now data ty) =
     min (mean_reliability (map snd (primary_sources p))) 1"
  using consult_used [of data "primary_sources p" "[]" "[]"]
  by (auto simp: check_primary_def select_sources_def Let_def split: prod.splits)

lemma check_secondary_fields:
  "passed (check_secondary p now data ty) = (1 \<le> length (secondary_sources p))"
  "confidence (check_secondary p now data ty) = mean_reliability (map snd (secondary_sources p))"
  using consult_used [of data "secondary_sources p" "[]" "[]"]
  by (auto simp: check_secondary_def select_sources_def Let_def split: prod.splits)

lemma check_pattern_fields:
  "passed (check_pattern p now data ty) = True"
  "confidence (check_pattern p now data ty) = 8/10"
  by (simp_all add: check_pattern_def match_historical_def Let_def)

lemma aggregate_rule:
  "(let r = fst (verify_aggregate p now did dhash data chain pr sr tr);
        p' = snd (verify_aggregate p now did dhash data chain pr sr tr);
        n = passed_count [passed (primary_check r), passed (secondary_check r),
                          passed (pattern_check r)]
    in (overall_status r = VERIFIED \<longleftrightarrow>
          passed (primary_check r) \<and> passed (secondary_check r) \<and> passed (pattern_check r))
     \<and> (overall_status r = FAILED \<longleftrightarrow>
          \<not> passed (primary_check r) \<and> \<not> passed (secondary_check r) \<and> \<not> passed (pattern_check r))
     \<and> ((n = 1 \<or> n = 2) \<and> overall_confidence r \<ge> 1/2 \<longrightarrow> overall_status r = PARTIAL)
     \<and> ((n = 1 \<or> n = 2) \<and> overall_confidence r < 1/2 \<longrightarrow> overall_status r = ESCALATED)
     \<and> escalations p' = (if overall_status r = ESCALATED then escalations p + 1 else escalations p))"
  unfolding Let_def aggregate_checks
  by (cases "passed pr"; cases "passed sr"; cases "passed tr")
     (simp_all add: aggregate_status aggregate_confidence aggregate_escalations passed_count_def)

text \<open>
  Claim C1. For every call of \<open>verify\<close> the overall status is determined by the three
  check results: it is \<open>VERIFIED\<close> exactly when all three checks passed and \<open>FAILED\<close>
  exactly when none passed; when one or two passed it is \<open>PARTIAL\<close> if the overall
  confidence is at least 0.5 and \<open>ESCALATED\<close> if it is below 0.5; and the counter
  \<open>escalations\<close> goes up by one exactly when the result is \<open>ESCALATED\<close>. The first
  half states it for the aggregation step on any three check results, the second for
  \<open>verify\<close> itself on the results it stores.
\<close>

theorem verify_status_determined:
  "(let r = fst (verify_aggregate p now did dhash data chain pr sr tr);
        p' = snd (verify_aggregate p now did dhash data chain pr sr tr);
        n = passed_count [passed pr, passed sr, passed tr]
    in (overall_status r = VERIFIED \<longleftrightarrow> passed pr \<and> passed sr \<and> passed tr)
     \<and> (overall_status r = FAILED \<longleftrightarrow> \<not> passed pr \<and> \<not> passed sr \<and> \<not> passed tr)
     \<and> ((n = 1 \<or> n = 2) \<and> overall_confidence r \<ge> 1/2 \<longrightarrow> overall_status r = PARTIAL)
     \<and> ((n = 1 \<or> n = 2) \<and> overall_confidence r < 1/2 \<longrightarrow> overall_status r = ESCALATED)
     \<and> escalations p' = (if overall_status r = ESCALATED then escalations p + 1 else escalations p))
   \<and>
   (let r = fst (verify rt p clk data ty);
        p' = snd (verify rt p clk data ty);
        n = passed_count [passed (primary_check r), passed (secondary_check r),
                          passed (pattern_check r)]
    in (overall_status r = VERIFIED \<longleftrightarrow>
          passed (primary_check r) \<and> passed (secondary_check r) \<and> passed (pattern_check r))
     \<and> (overall_status r = FAILED \<longleftrightarrow>
          \<not> passed (primary_check r) \<and> \<not> passed (secondary_check r) \<and> \<not> passed (pattern_check r))
     \<and> ((n = 1 \<or> n = 2) \<and> overall_confidence r \<ge> 1/2 \<longrightarrow> overall_status r = PARTIAL)
     \<and> ((n = 1 \<or> n = 2) \<and> overall_confidence r < 1/2 \<longrightarrow> overall_status r = ESCALATED)
     \<and> escalations p' = (if overall_status r = ESCALATED then escalations p + 1 else escalations p))"
proof (rule conjI)
  show "let r = fst (verify_aggregate p now did dhash data chain pr sr tr);
        p' = snd (verify_aggregate p now did dhash data chain pr sr tr);
        n = passed_count [passed pr, passed sr, passed tr]
    in (overall_status r = VERIFIED \<longleftrightarrow> passed pr \<and> passed sr \<and> passed tr)
     \<and> (overall_status r = FAILED \<longleftrightarrow> \<not> passed pr \<and> \<not> passed sr \<and> \<not> passed tr)
     \<and> ((n = 1 \<or> n = 2) \<and> overall_confidence r \<ge> 1/2 \<longrightarrow> overall_status r = PARTIAL)
     \<and> ((n = 1 \<or> n = 2) \<and> overall_confidence r < 1/2 \<longrightarrow> overall_status r = ESCALATED)
     \<and> escalations p' = (if overall_status r = ESCALATED then escalations p + 1 else escalations p)"
    using aggregate_rule [of p now did dhash data chain pr sr tr]
    unfolding Let_def aggregate_checks .
next
  show "let r = fst (verify rt p clk data ty);
        p' = snd (verify rt p clk data ty);
        n = passed_count [passed (primary_check r), passed (secondary_check r),
                          passed (pattern_check r)]
    in (overall_status r = VERIFIED \<longleftrightarrow>
          passed (primary_check r) \<and> passed (secondary_check r) \<and> passed (pattern_check r))
     \<and> (overall_status r = FAILED \<longleftrightarrow>
          \<not> passed (primary_check r) \<and> \<not> passed (secondary_check r) \<and> \<not> passed (pattern_check r))
     \<and> ((n = 1 \<or> n = 2) \<and> overall_confidence r \<ge> 1/2 \<longrightarrow> overall_status r = PARTIAL)
     \<and> ((n = 1 \<or> n = 2) \<and> overall_confidence r < 1/2 \<longrightarrow> overall_status r = ESCALATED)
     \<and> escalations p' = (if overall_status r = ESCALATED then escalations p + 1 else escalations p)"
    unfolding verify_unfold by (rule aggregate_rule)
qed

theorem verify_status_determined_witness:
  "(passed_count [passed (demo_check PRIMARY True (3/10)), passed (demo_check SECONDARY True (3/10)),
                  passed (demo_check PATTERN False (4/10))] = 2
    \<and> overall_confidence (fst (verify_aggregate scenario_A demo_time (Auto ''auto_1'') ''00'' []
          [] (demo_check PRIMARY True (3/10)) (demo_check SECONDARY True (3/10))
          (demo_check PATTERN False (4/10)))) < 1/2)
   \<and> overall_status (fst (verify_aggregate scenario_A demo_time (Auto ''auto_1'') ''00'' []
          [] (demo_check PRIMARY True (3/10)) (demo_check SECONDARY True (3/10))
          (demo_check PATTERN False (4/10)))) = ESCALATED
   \<and> escalations (snd (verify_aggregate scenario_A demo_time (Auto ''auto_1'') ''00'' []
          [] (demo_check PRIMARY True (3/10)) (demo_check SECONDARY True (3/10))
          (demo_check PATTERN False (4/10)))) = 1"
  using verify_status_determined [where p = scenario_A and now = demo_time
      and did = "Auto ''auto_1''" and dhash = "''00''" and data = "[]" and chain = "[]"
      and pr = "demo_check PRIMARY True (3/10)" and sr = "demo_check SECONDARY True (3/10)"
      and tr = "demo_check PATTERN False (4/10)" and rt = toy_runtime and clk = demo_clock
      and ty = "''generic''"]
  by (simp add: Let_def demo_check_def passed_count_def aggregate_confidence aggregate_status
      aggregate_escalations scenario_A_def TripleCheckProtocol_init_def
      init_default_sources_def)


lemma verify_data_hash: "data_hash (fst (verify rt p clk data ty)) = hash_data rt data"
  by (simp add: verify_unfold verify_aggregate_def Let_def)

text \<open>
  The top level of a payload is order-independent: two payloads with the same keys and,
  under each key, the same value (the same in structure, so that it renders alike) have
  the same \<open>_hash_data\<close>, and \<open>verify\<close> stores the same hash for both.
\<close>

lemma hash_top_level_order_independent:
  assumes "dict_ok d1" and "dict_ok d2" and "set d1 = set d2"
  shows "hash_data rt d1 = hash_data rt d2
       \<and> data_hash (fst (verify rt p1 clk1 d1 ty1)) = data_hash (fst (verify rt p2 clk2 d2 ty2))"
proof -
  have "sort_key fst d1 = sort_key fst d2"
    using assms unfolding dict_ok_def by (rule sort_key_fst_unique)
  then have "hash_data rt d1 = hash_data rt d2"
    by (simp add: hash_data_def)
  then show ?thesis by (simp add: verify_data_hash)
qed

text \<open>
  Claim C6 asks for the same hash for every two payload dictionaries with the same
  key/value pairs, regardless of insertion order. The payloads
  \<open>{"meta": {"a": 1, "b": 2}}\<close> and \<open>{"meta": {"b": 2, "a": 1}}\<close> are equal
  dictionaries with the same pairs, and differ in the insertion order of the inner keys
  only. The strings that \<open>_hash_data\<close> hands to the digest differ for them, and so do
  (under a digest that keeps the first sixteen characters apart) the hashes, also those
  that \<open>verify\<close> stores.
\<close>

theorem hash_data_nested_order_dependent:
  "dict_ok payload_ab \<and> dict_ok payload_ba
   \<and> py_eq (PyDict payload_ab) (PyDict payload_ba)
   \<and> str_items py_runtime (sort_key fst payload_ab)
       \<noteq> str_items py_runtime (sort_key fst payload_ba)
   \<and> hash_data py_runtime payload_ab \<noteq> hash_data py_runtime payload_ba
   \<and> data_hash (fst (verify py_runtime scenario_A demo_clock payload_ab ''generic''))
       \<noteq> data_hash (fst (verify py_runtime scenario_A demo_clock payload_ba ''generic''))"
proof -
  have eq: "py_eq (PyDict payload_ab) (PyDict payload_ba)"
    by (simp add: payload_ab_def payload_ba_def)
  have str: "str_items py_runtime (sort_key fst payload_ab)
       \<noteq> str_items py_runtime (sort_key fst payload_ba)"
    by (simp add: payload_ab_def payload_ba_def str_items_def py_runtime_def quote_def
        str_int_def)
  have hash: "hash_data py_runtime payload_ab \<noteq> hash_data py_runtime payload_ba"
    by (simp add: payload_ab_def payload_ba_def hash_data_def str_items_def py_runtime_def
        quote_def str_int_def)
  show ?thesis
    using eq str hash
    by (simp add: verify_data_hash dict_ok_def payload_ab_def payload_ba_def)
qed

text \<open>
  Claim C7, as amended. With two primary sources of reliability 0.99, one secondary source
  of reliability 0.92 and the default minimum of two sources, \<open>verify\<close> returns
  \<open>VERIFIED\<close>; the three check confidences are 0.99, 0.92 and 0.8, and the overall
  confidence is their arithmetic mean, which is 271/300, about 0.903.
\<close>

theorem scenario_A_result:
  assumes "map (\<lambda>kv. reliability_score (snd kv)) (primary_sources p) = [99/100, 99/100]"
      and "map (\<lambda>kv. reliability_score (snd kv)) (secondary_sources p) = [92/100]"
      and "min_sources_required p = 2"
  shows "overall_status (fst (verify rt p clk data ty)) = VERIFIED
       \<and> confidence (primary_check (fst (verify rt p clk data ty))) = 99/100
       \<and> confidence (secondary_check (fst (verify rt p clk data ty))) = 92/100
       \<and> confidence (pattern_check (fst (verify rt p clk data ty))) = 8/10
       \<and> overall_confidence (fst (verify rt p clk data ty)) = (99/100 + 92/100 + 8/10) / 3
       \<and> \<bar>overall_confidence (fst (verify rt p clk data ty)) - 903/1000\<bar> < 1/1000"
proof -
  have lp: "length (primary_sources p) = 2"
    using assms(1) by (metis length_map length_Cons list.size(3) One_nat_def Suc_1)
  have ls: "length (secondary_sources p) = 1"
    using assms(2) by (metis length_map length_Cons list.size(3) One_nat_def)
  have mp: "mean_reliability (map snd (primary_sources p)) = 99/100"
    using assms(1) lp by (auto simp: mean_reliability_def comp_def)
  have ms: "mean_reliability (map snd (secondary_sources p)) = 92/100"
    using assms(2) ls by (auto simp: mean_reliability_def comp_def)
  show ?thesis
    unfolding verify_unfold
    by (simp add: aggregate_status aggregate_confidence aggregate_checks check_primary_fields
        check_secondary_fields check_pattern_fields mp ms lp ls assms(3))
qed

theorem scenario_A_result_witness:
  "map (\<lambda>kv. reliability_score (snd kv)) (primary_sources scenario_A) = [99/100, 99/100]
   \<and> map (\<lambda>kv. reliability_score (snd kv)) (secondary_sources scenario_A) = [92/100]
   \<and> min_sources_required scenario_A = 2
   \<and> overall_status (fst (verify toy_runtime scenario_A demo_clock [] ''generic'')) = VERIFIED
   \<and> overall_confidence (fst (verify toy_runtime scenario_A demo_clock [] ''generic'')) = 271/300"
proof -
  have a: "map (\<lambda>kv. reliability_score (snd kv)) (primary_sources scenario_A) = [99/100, 99/100]"
    by (simp add: scenario_A_def mk_source_def)
  have b: "map (\<lambda>kv. reliability_score (snd kv)) (secondary_sources scenario_A) = [92/100]"
    by (simp add: scenario_A_def mk_source_def)
  have c: "min_sources_required scenario_A = 2"
    by (simp add: scenario_A_def TripleCheckProtocol_init_def init_default_sources_def)
  show ?thesis
    using a b c scenario_A_result [OF a b c, of toy_runtime demo_clock "[]" "''generic''"]
    by simp
qed

text \<open>
  Claim C7 as stated gives 0.967 for that mean. In scenario A the overall confidence is
  not within 0.01 of 0.967.
\<close>

theorem scenario_A_confidence_counterexample:
  "\<not> (overall_status (fst (verify toy_runtime scenario_A demo_clock [] ''generic'')) = VERIFIED
      \<and> \<bar>overall_confidence (fst (verify toy_runtime scenario_A demo_clock [] ''generic''))
          - 967/1000\<bar> \<le> 1/100)"
proof -
  have "overall_confidence (fst (verify toy_runtime scenario_A demo_clock [] ''generic''))
        = 271/300"
    unfolding verify_unfold
    by (simp add: aggregate_confidence check_primary_fields check_secondary_fields
        check_pattern_fields mean_reliability_def scenario_A_def mk_source_def)
  then show ?thesis by simp
qed


section \<open>Freeze and unfreeze\<close>

lemmas freeze_defs =
  trigger_freeze_def register_component_def FreezeProtocol_init_def
   MockArm_def halt_components_def halt_one_def run_diagnostics_def probe_one_def Let_def
   attempt_auto_recovery_def human_needed_def current_event_def determine_recovery_actions_def
   calculate_integrity_score_def execute_recovery_action_def dict_get_def dict_values_def
   dict_keys_def unfreeze_def resume_one_def resolve_current_def demo_protocol_def

lemma frozen_demo_state: "state frozen_demo = FROZEN"
  by (simp add: frozen_demo_def freeze_defs)

lemma frozen_demo_current: "current_freeze frozen_demo = Some 0"
  by (simp add: frozen_demo_def freeze_defs)

text \<open>
  Claim C2. \<open>trigger_freeze\<close> is idempotent: called while the state is \<open>FROZEN\<close> it
  returns the current FreezeEvent, and the protocol is exactly as before (the history,
  the components and their statuses, the event itself); a further call in succession
  returns the same event again.
\<close>

theorem trigger_freeze_idempotent:
  assumes "state p = FROZEN"
  shows "trigger_freeze p clk rsn source dets affected = (Return (current_freeze p), p)
       \<and> trigger_freeze (snd (trigger_freeze p clk rsn source dets affected))
           clk' rsn' source' dets' affected' = (Return (current_freeze p), p)"
  using assms by (simp add: trigger_freeze_def)

theorem trigger_freeze_idempotent_witness:
  "state frozen_demo = FROZEN
   \<and> trigger_freeze frozen_demo demo_clock SECURITY_CONCERN ''veritas'' ''second signal'' None
       = (Return (Some 0), frozen_demo)"
  using trigger_freeze_idempotent [OF frozen_demo_state, of demo_clock SECURITY_CONCERN
      "''veritas''" "''second signal''" None]
  by (simp add: frozen_demo_state frozen_demo_current)

text \<open>
  Claim C3. \<open>unfreeze\<close> with an empty or absent authorization, called while the state
  is \<open>FROZEN\<close>, returns false and changes nothing: the state, the current event, the
  component statuses and the recovery-attempt counter are those of before.
\<close>

theorem unfreeze_requires_authorization:
  assumes "state p = FROZEN" and "authorization = None \<or> authorization = Some []"
  shows "unfreeze p now authorization = (Return False, p)"
  using assms by (auto simp: unfreeze_def)

theorem unfreeze_requires_authorization_witness:
  "state frozen_demo = FROZEN
   \<and> unfreeze frozen_demo demo_time (Some []) = (Return False, frozen_demo)
   \<and> unfreeze frozen_demo demo_time None = (Return False, frozen_demo)"
  using unfreeze_requires_authorization [OF frozen_demo_state, of "Some []" demo_time]
    unfreeze_requires_authorization [OF frozen_demo_state, of None demo_time]
  by (simp add: frozen_demo_state)

text \<open>
  Claim C10. \<open>unfreeze\<close> called while the state is not \<open>FROZEN\<close> returns true at
  once, for every authorization, the empty one included, and changes nothing.
\<close>

theorem unfreeze_not_frozen:
  assumes "state p \<noteq> FROZEN"
  shows "unfreeze p now authorization = (Return True, p)"
  using assms by (simp add: unfreeze_def)

theorem unfreeze_not_frozen_witness:
  "state demo_protocol \<noteq> FROZEN
   \<and> unfreeze demo_protocol demo_time (Some []) = (Return True, demo_protocol)
   \<and> unfreeze demo_protocol demo_time (Some ''admin'') = (Return True, demo_protocol)"
proof -
  have a: "state demo_protocol \<noteq> FROZEN"
    by (simp add: demo_protocol_def register_component_def FreezeProtocol_init_def)
  show ?thesis
    using a unfreeze_not_frozen [OF a, of demo_time "Some []"]
      unfreeze_not_frozen [OF a, of demo_time "Some ''admin''"]
    by simp
qed


section \<open>The orchestrator\<close>

lemma frozen_brain_frozen: "frozen frozen_brain"
  by (simp add: frozen_brain_def ww_freeze_def register_arm_def WestminsterWatch_init_def
      MockArm_def Let_def)

text \<open>
  Claim C5. For every fact record, \<open>triple_check\<close> of a frozen orchestrator fails at
  once with the \<open>RuntimeError\<close>, and the orchestrator is unchanged: the counters
  \<open>verifications_total\<close> and \<open>verifications_passed\<close> and everything else.
\<close>

theorem triple_check_rejects_when_frozen:
  assumes "frozen b"
  shows "triple_check rt b now data primary_srcs secondary_srcs
           = (Raise ''System is frozen - cannot verify'', b)"
  using assms by (simp add: triple_check_def)

theorem triple_check_rejects_when_frozen_witness:
  "frozen frozen_brain
   \<and> triple_check toy_runtime frozen_brain demo_time [(''id'', 1)] [''hansard.parliament.uk'']
        [''theyworkforyou.com''] = (Raise ''System is frozen - cannot verify'', frozen_brain)"
  using triple_check_rejects_when_frozen [OF frozen_brain_frozen, of toy_runtime demo_time
      "[(''id'', 1)]" "[''hansard.parliament.uk'']" "[''theyworkforyou.com'']"]
  by (simp add: frozen_brain_frozen)

section \<open>Registration\<close>

lemma dict_get_set: "dict_get (dict_set d k v) k = Some v"
  by (induction d) (auto simp: dict_get_def)

lemma dict_keys_set:
  "dict_keys (dict_set d k v) = (if k \<in> set (dict_keys d) then dict_keys d else dict_keys d @ [k])"
  by (induction d) (force simp: dict_keys_def)+

text \<open>
  Claim C9, as amended. Registering under a name sets the entry of that name: in the
  orchestrator's arm registry with status \<open>INITIALIZING\<close>, in the freeze protocol with
  status \<open>"ACTIVE"\<close>. In both, registering under a name that is present replaces the
  entry (the keys are those of before, in the same order), and under a new name adds one.
\<close>

theorem register_replaces_entry:
  "dict_get (component_status (register_component p nm c)) nm = Some ''ACTIVE''
   \<and> dict_get (components (register_component p nm c)) nm = Some c
   \<and> dict_keys (components (register_component p nm c)) =
       (if nm \<in> set (dict_keys (components p)) then dict_keys (components p)
        else dict_keys (components p) @ [nm])
   \<and> dict_keys (component_status (register_component p nm c)) =
       (if nm \<in> set (dict_keys (component_status p)) then dict_keys (component_status p)
        else dict_keys (component_status p) @ [nm])
   \<and> dict_get (arm_status (register_arm b nm c)) nm = Some Arm_INITIALIZING
   \<and> dict_get (arms (register_arm b nm c)) nm = Some c
   \<and> dict_keys (arms (register_arm b nm c)) =
       (if nm \<in> set (dict_keys (arms b)) then dict_keys (arms b) else dict_keys (arms b) @ [nm])
   \<and> dict_keys (arm_status (register_arm b nm c)) =
       (if nm \<in> set (dict_keys (arm_status b)) then dict_keys (arm_status b)
        else dict_keys (arm_status b) @ [nm])"
  by (simp add: register_component_def register_arm_def dict_get_set dict_keys_set)

text \<open>
  Claim C9 as stated has \<open>INITIALIZING\<close> in the freeze protocol too. A component
  registered there does not get that status.
\<close>

theorem register_component_status_counterexample:
  "dict_get (component_status
       (register_component (FreezeProtocol_init None) ''hansard'' (MockArm True))) ''hansard''
     \<noteq> Some ''INITIALIZING''"
  by (simp add: register_component_def FreezeProtocol_init_def dict_get_def)

section \<open>Event ids\<close>

text \<open>
  Claim C8 asks for distinct ids of distinct FreezeEvents, also within one second. The id
  is the clock reading down to the second: the demo's freeze, a manual unfreeze and a
  second freeze half a second after the first leave two events in the history, with
  different timestamps and the same id.
\<close>

theorem freeze_event_id_collision:
  "length (freeze_history
      (snd (trigger_freeze (snd (unfreeze frozen_demo demo_time (Some ''admin_authorization'')))
              later_clock HUMAN_TRIGGERED ''operator'' ''second freeze'' None))) = 2
   \<and> event_id (freeze_history
      (snd (trigger_freeze (snd (unfreeze frozen_demo demo_time (Some ''admin_authorization'')))
              later_clock HUMAN_TRIGGERED ''operator'' ''second freeze'' None)) ! 0)
     = event_id (freeze_history
      (snd (trigger_freeze (snd (unfreeze frozen_demo demo_time (Some ''admin_authorization'')))
              later_clock HUMAN_TRIGGERED ''operator'' ''second freeze'' None)) ! 1)
   \<and> fe_timestamp (freeze_history
      (snd (trigger_freeze (snd (unfreeze frozen_demo demo_time (Some ''admin_authorization'')))
              later_clock HUMAN_TRIGGERED ''operator'' ''second freeze'' None)) ! 0)
     \<noteq> fe_timestamp (freeze_history
      (snd (trigger_freeze (snd (unfreeze frozen_demo demo_time (Some ''admin_authorization'')))
              later_clock HUMAN_TRIGGERED ''operator'' ''second freeze'' None)) ! 1)"
  by (simp add: frozen_demo_def freeze_defs strftime_Ymd_HMS_def demo_clock_def later_clock_def
      demo_time_def)


section \<open>Auto-recovery\<close>

text \<open>
  Diagnostics and recovery actions touch the components and, for the diagnostics, their
  statuses; the state, the current event, the history and the attempt counter stay.
\<close>

lemma run_diagnostics_frame:
  "state (snd (run_diagnostics p t)) = state p"
  "current_freeze (snd (run_diagnostics p t)) = current_freeze p"
  "freeze_history (snd (run_diagnostics p t)) = freeze_history p"
  "recovery_attempts (snd (run_diagnostics p t)) = recovery_attempts p"
  "max_auto_recovery_attempts (snd (run_diagnostics p t)) = max_auto_recovery_attempts p"
  "brain_callback (snd (run_diagnostics p t)) = brain_callback p"
  by (simp_all add: run_diagnostics_def Let_def split: prod.splits)

lemma current_event_cong:
  "current_freeze q = current_freeze p \<Longrightarrow> freeze_history q = freeze_history p \<Longrightarrow>
   current_event q = current_event p"
  by (simp add: current_event_def split: option.splits)

lemma run_diagnostics_current_event:
  "current_event (snd (run_diagnostics p t)) = current_event p"
  by (rule current_event_cong) (simp_all add: run_diagnostics_frame)

lemma run_diagnostics_snd:
  "snd (run_diagnostics p t) =
     p\<lparr>components := fst (probe_loop (components p) (component_status p)),
       component_status := snd (probe_loop (components p) (component_status p))\<rparr>"
  by (simp add: run_diagnostics_def Let_def split: prod.splits)

lemma run_diagnostics_fst:
  "human_intervention_required (fst (run_diagnostics p t)) =
     human_needed (snd (run_diagnostics p t))"
  "recommended_actions (fst (run_diagnostics p t)) =
     determine_recovery_actions (snd (run_diagnostics p t))"
  "data_integrity_score (fst (run_diagnostics p t)) =
     calculate_integrity_score (snd (run_diagnostics p t))"
  by (simp_all add: run_diagnostics_def Let_def split: prod.splits)

lemma run_diagnostics_report:
  "human_intervention_required (fst (run_diagnostics p t)) = human_needed p"
  "recommended_actions (fst (run_diagnostics p t)) = determine_recovery_actions p"
  unfolding run_diagnostics_fst
  by (simp_all add: human_needed_def determine_recovery_actions_def
      run_diagnostics_current_event run_diagnostics_frame)

lemma execute_recovery_action_frame:
  "state (snd (execute_recovery_action p a)) = state p"
  "current_freeze (snd (execute_recovery_action p a)) = current_freeze p"
  "freeze_history (snd (execute_recovery_action p a)) = freeze_history p"
  "recovery_attempts (snd (execute_recovery_action p a)) = recovery_attempts p"
  "max_auto_recovery_attempts (snd (execute_recovery_action p a)) = max_auto_recovery_attempts p"
  "component_status (snd (execute_recovery_action p a)) = component_status p"
  by (simp_all add: execute_recovery_action_def Let_def
      split: RecoveryAction.splits option.splits prod.splits)

lemma execute_actions_frame:
  "state (snd (execute_actions p as)) = state p
   \<and> current_freeze (snd (execute_actions p as)) = current_freeze p
   \<and> freeze_history (snd (execute_actions p as)) = freeze_history p
   \<and> recovery_attempts (snd (execute_actions p as)) = recovery_attempts p
   \<and> max_auto_recovery_attempts (snd (execute_actions p as)) = max_auto_recovery_attempts p
   \<and> component_status (snd (execute_actions p as)) = component_status p"
proof (induction as arbitrary: p)
  case Nil
  then show ?case by simp
next
  case (Cons a as)
  obtain ok q where e: "execute_recovery_action p a = (ok, q)" by fastforce
  have fr: "state q = state p" "current_freeze q = current_freeze p"
    "freeze_history q = freeze_history p" "recovery_attempts q = recovery_attempts p"
    "max_auto_recovery_attempts q = max_auto_recovery_attempts p"
    "component_status q = component_status p"
    using execute_recovery_action_frame [of p a] e by simp_all
  show ?case
  proof (cases ok)
    case True
    then show ?thesis using e fr Cons.IH [of q] by simp
  next
    case False
    then show ?thesis using e fr by simp
  qed
qed

text \<open>
  The loop over the recommended actions runs them in order and stops at the first one
  that fails: whatever follows it is not executed.
\<close>

lemma execute_actions_stops:
  assumes "execute_actions p as = (True, q)" and "execute_recovery_action q a = (False, q')"
  shows "execute_actions p (as @ a # bs) = (False, q')"
  using assms
proof (induction as arbitrary: p)
  case Nil
  then show ?case by simp
next
  case (Cons x xs)
  then show ?case by (auto split: prod.splits if_splits)
qed

text \<open>An action that succeeds after a successful run extends the run by its own effect.\<close>

lemma execute_actions_snoc:
  assumes "execute_actions p as = (True, q)" and "fst (execute_recovery_action q a)"
  shows "execute_actions p (as @ [a]) = (True, snd (execute_recovery_action q a))"
  using assms
proof (induction as arbitrary: p)
  case Nil
  then show ?case by (cases "execute_recovery_action q a") auto
next
  case (Cons x xs)
  then show ?case by (auto split: prod.splits if_splits)
qed

lemma unfreeze_authorized_state:
  "state p = FROZEN \<Longrightarrow> auth \<noteq> [] \<Longrightarrow> state (snd (unfreeze p t (Some auth))) = ACTIVE"
  by (simp add: unfreeze_def Let_def split: prod.splits option.splits)


lemma snd_unfreeze_case:
  "snd (case x of (Return b, q) \<Rightarrow> (Return True, q) | (Raise e, q) \<Rightarrow> (Raise e, q)) = snd x"
  by (cases x; cases "fst x") auto

lemma attempt_skip:
  "human_intervention_required d \<Longrightarrow> attempt_auto_recovery p t1 t2 d = (Return False, p)"
  by (simp add: attempt_auto_recovery_def)

lemma attempt_run:
  assumes "\<not> human_intervention_required d"
      and "\<not> recovery_attempts p \<ge> max_auto_recovery_attempts p"
  shows "attempt_auto_recovery p t1 t2 d =
     (let p1 = p\<lparr>recovery_attempts := recovery_attempts p + 1\<rparr>;
          ok = fst (execute_actions p1 (recommended_actions d));
          p2 = snd (execute_actions p1 (recommended_actions d));
          post = fst (run_diagnostics p2 t1);
          p3 = snd (run_diagnostics p2 t1)
      in if \<not> ok then (Return False, p2)
         else if data_integrity_score post \<ge> 8/10
         then (case unfreeze p3 t2 (Some ''auto_recovery'') of
                 (Return b, p4) \<Rightarrow> (Return True, p4)
               | (Raise e, p4) \<Rightarrow> (Raise e, p4))
         else (Return False, p3))"
  using assms by (simp add: attempt_auto_recovery_def Let_def case_prod_beta)

text \<open>
  Claim C4. The protocol is \<open>FROZEN\<close> with a current event; diagnostics are run and the
  report is handed to the auto-recovery, as \<open>trigger_freeze\<close> does. The report asks for
  human intervention exactly when the attempt counter has reached the maximum or the
  reason of the freeze is \<open>SECURITY_CONCERN\<close> or \<open>DATA_INTEGRITY\<close>, and then the
  recovery is skipped: it returns false and nothing changes. Otherwise the attempt
  counter goes up by one and the recommended actions are executed in order up to the
  first that fails. If one fails the attempt ends there, with the system \<open>FROZEN\<close>. If
  all succeed, diagnostics are run again and the system is unfrozen with the
  authorization \<open>auto_recovery\<close> if the new integrity score is at least 0.8, and is
  left \<open>FROZEN\<close> if it is below. The last three clauses are the order of execution:
  the run starts from the state with the counter raised; an action that succeeds after
  the actions \<open>pre\<close> before it takes the run on from the state they left; and when the
  action \<open>a\<close> fails after the actions \<open>pre\<close> before it succeeded, the state the attempt
  returns is the one \<open>a\<close> left, so that none of the actions \<open>rest\<close> after it is
  executed.
\<close>

theorem auto_recovery_behaviour:
  assumes "state p0 = FROZEN" and "current_event p0 = Some ev"
  shows
   "let d = fst (run_diagnostics p0 t0);
        p = snd (run_diagnostics p0 t0);
        res = attempt_auto_recovery p t1 t2 d;
        human = (recovery_attempts p0 \<ge> max_auto_recovery_attempts p0
                 \<or> reason ev = SECURITY_CONCERN \<or> reason ev = DATA_INTEGRITY);
        p1 = p\<lparr>recovery_attempts := recovery_attempts p + 1\<rparr>;
        ok = fst (execute_actions p1 (recommended_actions d));
        p2 = snd (execute_actions p1 (recommended_actions d));
        post = fst (run_diagnostics p2 t1);
        p3 = snd (run_diagnostics p2 t1)
    in (human_intervention_required d \<longleftrightarrow> human)
     \<and> (human \<longrightarrow> res = (Return False, p))
     \<and> (\<not> human \<longrightarrow> recovery_attempts p2 = recovery_attempts p0 + 1)
     \<and> (\<not> human \<and> \<not> ok \<longrightarrow> res = (Return False, p2) \<and> state p2 = FROZEN)
     \<and> (\<not> human \<and> ok \<and> data_integrity_score post \<ge> 8/10 \<longrightarrow>
          snd res = snd (unfreeze p3 t2 (Some ''auto_recovery'')) \<and> state (snd res) = ACTIVE)
     \<and> (\<not> human \<and> ok \<and> data_integrity_score post < 8/10 \<longrightarrow>
          res = (Return False, p3) \<and> state p3 = FROZEN)
     \<and> (state (snd res) = ACTIVE \<longleftrightarrow> \<not> human \<and> ok \<and> data_integrity_score post \<ge> 8/10)
     \<and> (state (snd res) = FROZEN \<longleftrightarrow> \<not> (\<not> human \<and> ok \<and> data_integrity_score post \<ge> 8/10))
     \<and> execute_actions p1 [] = (True, p1)
     \<and> (execute_actions p1 pre = (True, q) \<and> fst (execute_recovery_action q a) \<longrightarrow>
          execute_actions p1 (pre @ [a]) = (True, snd (execute_recovery_action q a)))
     \<and> (\<not> human \<and> recommended_actions d = pre @ a # rest
          \<and> execute_actions p1 pre = (True, q) \<and> \<not> fst (execute_recovery_action q a) \<longrightarrow>
          \<not> ok \<and> p2 = snd (execute_recovery_action q a)
          \<and> res = (Return False, snd (execute_recovery_action q a)))"
proof -
  define d where "d = fst (run_diagnostics p0 t0)"
  define p where "p = snd (run_diagnostics p0 t0)"
  define human where "human \<longleftrightarrow> recovery_attempts p0 \<ge> max_auto_recovery_attempts p0
                 \<or> reason ev = SECURITY_CONCERN \<or> reason ev = DATA_INTEGRITY"
  define p1 where "p1 = p\<lparr>recovery_attempts := recovery_attempts p + 1\<rparr>"
  define ok where "ok = fst (execute_actions p1 (recommended_actions d))"
  define p2 where "p2 = snd (execute_actions p1 (recommended_actions d))"
  define post where "post = fst (run_diagnostics p2 t1)"
  define p3 where "p3 = snd (run_diagnostics p2 t1)"
  define res where "res = attempt_auto_recovery p t1 t2 d"
  have p_frame: "state p = FROZEN" "recovery_attempts p = recovery_attempts p0"
    "max_auto_recovery_attempts p = max_auto_recovery_attempts p0"
    using assms(1) by (simp_all add: p_def run_diagnostics_frame)
  have hd: "human_intervention_required d \<longleftrightarrow> human"
    using assms(2)
    by (auto simp: d_def human_def run_diagnostics_report human_needed_def)
  have p2_frame: "state p2 = FROZEN" "recovery_attempts p2 = recovery_attempts p0 + 1"
    using execute_actions_frame [of p1 "recommended_actions d"] p_frame
    by (simp_all add: p2_def p1_def)
  have p3_frame: "state p3 = FROZEN"
    using p2_frame by (simp add: p3_def run_diagnostics_frame)
  have skip: "res = (Return False, p)" if human
    using that hd by (simp add: res_def attempt_skip)
  have run: "res =
      (if \<not> ok then (Return False, p2)
       else if data_integrity_score post \<ge> 8/10
       then (case unfreeze p3 t2 (Some ''auto_recovery'') of
               (Return b, p4) \<Rightarrow> (Return True, p4)
             | (Raise e, p4) \<Rightarrow> (Raise e, p4))
       else (Return False, p3))" if "\<not> human"
  proof -
    have a: "\<not> human_intervention_required d" using that hd by simp
    have b: "\<not> recovery_attempts p \<ge> max_auto_recovery_attempts p"
      using that p_frame by (simp add: human_def)
    show ?thesis
      unfolding res_def attempt_run [OF a b]
      by (simp add: Let_def p1_def ok_def p2_def post_def p3_def)
  qed
  have unf: "state (snd (unfreeze p3 t2 (Some ''auto_recovery''))) = ACTIVE"
    using p3_frame by (simp add: unfreeze_authorized_state)
  have c1: "human \<longrightarrow> res = (Return False, p)" using skip by simp
  have c2: "\<not> human \<longrightarrow> recovery_attempts p2 = recovery_attempts p0 + 1"
    using p2_frame by simp
  have c3: "\<not> human \<and> \<not> ok \<longrightarrow> res = (Return False, p2) \<and> state p2 = FROZEN"
    using run p2_frame by simp
  have c4: "\<not> human \<and> ok \<and> data_integrity_score post \<ge> 8/10 \<longrightarrow>
          snd res = snd (unfreeze p3 t2 (Some ''auto_recovery'')) \<and> state (snd res) = ACTIVE"
    using run unf by (simp add: snd_unfreeze_case)
  have c5: "\<not> human \<and> ok \<and> data_integrity_score post < 8/10 \<longrightarrow>
          res = (Return False, p3) \<and> state p3 = FROZEN"
    using run p3_frame by simp
  have c6: "state (snd res) = ACTIVE \<longleftrightarrow> \<not> human \<and> ok \<and> data_integrity_score post \<ge> 8/10"
  proof (cases human)
    case True
    then show ?thesis using skip p_frame by simp
  next
    case False
    then show ?thesis
      using run [OF False] unf p2_frame p3_frame by (auto simp: snd_unfreeze_case)
  qed
  have c7: "state (snd res) = FROZEN \<longleftrightarrow> \<not> (\<not> human \<and> ok \<and> data_integrity_score post \<ge> 8/10)"
  proof (cases human)
    case True
    then show ?thesis using skip p_frame by simp
  next
    case False
    then show ?thesis
      using run [OF False] unf p2_frame p3_frame by (auto simp: snd_unfreeze_case)
  qed
  have c8: "execute_actions p1 [] = (True, p1)" by simp
  have c9: "execute_actions p1 pre = (True, q) \<and> fst (execute_recovery_action q a) \<longrightarrow>
          execute_actions p1 (pre @ [a]) = (True, snd (execute_recovery_action q a))"
    by (simp add: execute_actions_snoc)
  have c10: "\<not> human \<and> recommended_actions d = pre @ a # rest
          \<and> execute_actions p1 pre = (True, q) \<and> \<not> fst (execute_recovery_action q a) \<longrightarrow>
          \<not> ok \<and> p2 = snd (execute_recovery_action q a)
          \<and> res = (Return False, snd (execute_recovery_action q a))"
  proof (intro impI)
    assume h: "\<not> human \<and> recommended_actions d = pre @ a # rest
          \<and> execute_actions p1 pre = (True, q) \<and> \<not> fst (execute_recovery_action q a)"
    have fails: "execute_recovery_action q a = (False, snd (execute_recovery_action q a))"
      using h by (cases "execute_recovery_action q a") simp
    have "execute_actions p1 (recommended_actions d) = (False, snd (execute_recovery_action q a))"
      using h execute_actions_stops [of p1 pre q a "snd (execute_recovery_action q a)" rest] fails
      by simp
    then have "\<not> ok" and "p2 = snd (execute_recovery_action q a)"
      by (simp_all add: ok_def p2_def)
    then show "\<not> ok \<and> p2 = snd (execute_recovery_action q a)
          \<and> res = (Return False, snd (execute_recovery_action q a))"
      using run h by simp
  qed
  have all: "(human_intervention_required d \<longleftrightarrow> human)
     \<and> (human \<longrightarrow> res = (Return False, p))
     \<and> (\<not> human \<longrightarrow> recovery_attempts p2 = recovery_attempts p0 + 1)
     \<and> (\<not> human \<and> \<not> ok \<longrightarrow> res = (Return False, p2) \<and> state p2 = FROZEN)
     \<and> (\<not> human \<and> ok \<and> data_integrity_score post \<ge> 8/10 \<longrightarrow>
          snd res = snd (unfreeze p3 t2 (Some ''auto_recovery'')) \<and> state (snd res) = ACTIVE)
     \<and> (\<not> human \<and> ok \<and> data_integrity_score post < 8/10 \<longrightarrow>
          res = (Return False, p3) \<and> state p3 = FROZEN)
     \<and> (state (snd res) = ACTIVE \<longleftrightarrow> \<not> human \<and> ok \<and> data_integrity_score post \<ge> 8/10)
     \<and> (state (snd res) = FROZEN \<longleftrightarrow> \<not> (\<not> human \<and> ok \<and> data_integrity_score post \<ge> 8/10))
     \<and> execute_actions p1 [] = (True, p1)
     \<and> (execute_actions p1 pre = (True, q) \<and> fst (execute_recovery_action q a) \<longrightarrow>
          execute_actions p1 (pre @ [a]) = (True, snd (execute_recovery_action q a)))
     \<and> (\<not> human \<and> recommended_actions d = pre @ a # rest
          \<and> execute_actions p1 pre = (True, q) \<and> \<not> fst (execute_recovery_action q a) \<longrightarrow>
          \<not> ok \<and> p2 = snd (execute_recovery_action q a)
          \<and> res = (Return False, snd (execute_recovery_action q a)))"
    using hd c1 c2 c3 c4 c5 c6 c7 c8 c9 c10 by (intro conjI)
  show ?thesis
    unfolding Let_def
    using all
    unfolding d_def p_def human_def p1_def ok_def p2_def post_def p3_def res_def .
qed


lemma frozen_solo_facts:
  "state frozen_solo = FROZEN"
  "current_event frozen_solo = Some (freeze_history frozen_solo ! 0)"
  by (simp_all add: frozen_solo_def solo_protocol_def freeze_defs)

lemma frozen_demo_event:
  "current_event frozen_demo = Some (freeze_history frozen_demo ! 0)"
  by (simp add: frozen_demo_def freeze_defs)

lemma solo_recovers:
  "state (snd (attempt_auto_recovery (snd (run_diagnostics frozen_solo demo_time))
                 demo_time demo_time (fst (run_diagnostics frozen_solo demo_time)))) = ACTIVE"
  by (simp add: frozen_solo_def solo_protocol_def freeze_defs dict_ok_def)

lemma demo_stays_frozen:
  "state (snd (attempt_auto_recovery (snd (run_diagnostics frozen_demo demo_time))
                 demo_time demo_time (fst (run_diagnostics frozen_demo demo_time)))) = FROZEN"
  "recovery_attempts (snd (attempt_auto_recovery (snd (run_diagnostics frozen_demo demo_time))
                 demo_time demo_time (fst (run_diagnostics frozen_demo demo_time)))) = 2"
  by (simp_all add: frozen_demo_def freeze_defs)


lemma frozen_cache_facts:
  "state frozen_cache = FROZEN"
  "current_event frozen_cache = Some (freeze_history frozen_cache ! 0)"
  "reason (freeze_history frozen_cache ! 0) = API_ERROR"
  "recovery_attempts frozen_cache = 0"
  "max_auto_recovery_attempts frozen_cache = 3"
  by (simp_all add: frozen_cache_def cache_protocol_def StuckCacheArm_def freeze_defs)

lemma frozen_cache_actions:
  "recommended_actions (fst (run_diagnostics frozen_cache demo_time))
     = [] @ CLEAR_CACHE # [RESTART_ARM]"
  by (simp add: frozen_cache_def cache_protocol_def StuckCacheArm_def freeze_defs)

lemma frozen_cache_clear_fails:
  "\<not> fst (execute_recovery_action
            ((snd (run_diagnostics frozen_cache demo_time))
               \<lparr>recovery_attempts :=
                  recovery_attempts (snd (run_diagnostics frozen_cache demo_time)) + 1\<rparr>)
            CLEAR_CACHE)"
  by (simp add: frozen_cache_def cache_protocol_def StuckCacheArm_def freeze_defs)

lemma frozen_cache_not_restarted:
  "map (\<lambda>kv. cstate (snd kv))
     (components (snd (attempt_auto_recovery (snd (run_diagnostics frozen_cache demo_time))
                         demo_time demo_time (fst (run_diagnostics frozen_cache demo_time)))))
     = [False]"
  "state (snd (attempt_auto_recovery (snd (run_diagnostics frozen_cache demo_time))
                 demo_time demo_time (fst (run_diagnostics frozen_cache demo_time)))) = FROZEN"
  by (simp_all add: frozen_cache_def cache_protocol_def StuckCacheArm_def freeze_defs)

theorem auto_recovery_behaviour_witness:
  "(state frozen_solo = FROZEN
    \<and> current_event frozen_solo = Some (freeze_history frozen_solo ! 0)
    \<and> state (snd (attempt_auto_recovery (snd (run_diagnostics frozen_solo demo_time))
                 demo_time demo_time (fst (run_diagnostics frozen_solo demo_time)))) = ACTIVE)
   \<and> (state frozen_demo = FROZEN
    \<and> current_event frozen_demo = Some (freeze_history frozen_demo ! 0)
    \<and> state (snd (attempt_auto_recovery (snd (run_diagnostics frozen_demo demo_time))
                 demo_time demo_time (fst (run_diagnostics frozen_demo demo_time)))) = FROZEN
    \<and> recovery_attempts (snd (attempt_auto_recovery (snd (run_diagnostics frozen_demo demo_time))
                 demo_time demo_time (fst (run_diagnostics frozen_demo demo_time)))) = 2)
   \<and> (state frozen_cache = FROZEN
    \<and> current_event frozen_cache = Some (freeze_history frozen_cache ! 0)
    \<and> recommended_actions (fst (run_diagnostics frozen_cache demo_time))
        = [] @ CLEAR_CACHE # [RESTART_ARM]
    \<and> \<not> fst (execute_recovery_action
            ((snd (run_diagnostics frozen_cache demo_time))
               \<lparr>recovery_attempts :=
                  recovery_attempts (snd (run_diagnostics frozen_cache demo_time)) + 1\<rparr>)
            CLEAR_CACHE)
    \<and> attempt_auto_recovery (snd (run_diagnostics frozen_cache demo_time))
         demo_time demo_time (fst (run_diagnostics frozen_cache demo_time))
       = (Return False,
          snd (execute_recovery_action
            ((snd (run_diagnostics frozen_cache demo_time))
               \<lparr>recovery_attempts :=
                  recovery_attempts (snd (run_diagnostics frozen_cache demo_time)) + 1\<rparr>)
            CLEAR_CACHE))
    \<and> map (\<lambda>kv. cstate (snd kv))
         (components (snd (attempt_auto_recovery (snd (run_diagnostics frozen_cache demo_time))
                         demo_time demo_time (fst (run_diagnostics frozen_cache demo_time)))))
       = [False]
    \<and> state (snd (attempt_auto_recovery (snd (run_diagnostics frozen_cache demo_time))
                 demo_time demo_time (fst (run_diagnostics frozen_cache demo_time)))) = FROZEN)"
proof -
  have solo: "state (snd (attempt_auto_recovery (snd (run_diagnostics frozen_solo demo_time))
                 demo_time demo_time (fst (run_diagnostics frozen_solo demo_time)))) = ACTIVE"
    using auto_recovery_behaviour [OF frozen_solo_facts, where ?t0.0 = demo_time
        and ?t1.0 = demo_time and ?t2.0 = demo_time]
    by (simp add: solo_recovers)
  have demo: "state (snd (attempt_auto_recovery (snd (run_diagnostics frozen_demo demo_time))
                 demo_time demo_time (fst (run_diagnostics frozen_demo demo_time)))) = FROZEN"
    using auto_recovery_behaviour [OF frozen_demo_state frozen_demo_event,
        where ?t0.0 = demo_time and ?t1.0 = demo_time and ?t2.0 = demo_time]
    by (simp add: demo_stays_frozen)
  have cache: "attempt_auto_recovery (snd (run_diagnostics frozen_cache demo_time))
         demo_time demo_time (fst (run_diagnostics frozen_cache demo_time))
       = (Return False,
          snd (execute_recovery_action
            ((snd (run_diagnostics frozen_cache demo_time))
               \<lparr>recovery_attempts :=
                  recovery_attempts (snd (run_diagnostics frozen_cache demo_time)) + 1\<rparr>)
            CLEAR_CACHE))"
    using auto_recovery_behaviour [OF frozen_cache_facts(1,2), where ?t0.0 = demo_time
        and ?t1.0 = demo_time and ?t2.0 = demo_time and pre = "[]" and a = CLEAR_CACHE
        and rest = "[RESTART_ARM]"
        and q = "(snd (run_diagnostics frozen_cache demo_time))
               \<lparr>recovery_attempts :=
                  recovery_attempts (snd (run_diagnostics frozen_cache demo_time)) + 1\<rparr>"]
      frozen_cache_actions frozen_cache_clear_fails
    by (simp add: Let_def frozen_cache_facts)
  note facts = solo demo cache frozen_solo_facts frozen_demo_state frozen_demo_event
    demo_stays_frozen(2) frozen_cache_facts(1,2) frozen_cache_actions frozen_cache_clear_fails
    frozen_cache_not_restarted
  show ?thesis
    by (intro conjI) (rule facts)+
qed

end
